theory Spec2Isabelle
  imports Complex_Main "HOL-Library.Char_ord" "HOL-Library.List_Lexorder"
begin

section \<open>Timekeeper: the client-side logic of script.js\<close>

text \<open>
  The program is one JavaScript file. Its pure helpers (clock strings, worked minutes, the
  pay-period start), its key-value store and its click handlers are embedded below as HOL
  functions. Numbers that the program computes with are whole minutes and days, held as
  \<open>int\<close>; a value of \<open>None\<close> in a numeric position stands for JavaScript's \<open>NaN\<close>.
\<close>

subsection \<open>Strings and numerals of the platform\<close>

definition digitChar :: "nat \<Rightarrow> char" where
  "digitChar n = ''0123456789'' ! (n mod 10)"

definition digitVal :: "char \<Rightarrow> nat option" where
  "digitVal c = map_of (zip ''0123456789'' [0, 1, 2, 3, 4, 5, 6, 7, 8, 9]) c"

text \<open>Reading a run of decimal digits, most significant first.\<close>

fun parseDigits :: "int \<Rightarrow> string \<Rightarrow> int option" where
  "parseDigits acc [] = Some acc"
| "parseDigits acc (c # cs) =
     (case digitVal c of None \<Rightarrow> None | Some d \<Rightarrow> parseDigits (10 * acc + int d) cs)"

text \<open>
  \<^verbatim>\<open>Number(s)\<close> on the strings this program feeds it. The empty string converts to 0 and
  a run of at most nine decimal digits to its value (exact in a double, as is all later
  arithmetic on it). Every other string is mapped to \<open>None\<close>: it is either \<open>NaN\<close> in
  JavaScript or a literal with a sign, fraction, exponent, radix prefix or blanks, which
  lies outside the integers modelled here.
\<close>

definition jsNumber :: "string \<Rightarrow> int option" where
  "jsNumber s =
     (if s = [] then Some 0
      else if length s \<le> 9 then parseDigits 0 s
      else None)"

text \<open>
  The blanks that \<^verbatim>\<open>trim\<close>, \<^verbatim>\<open>parseInt\<close> and \<^verbatim>\<open>Number\<close> skip, among the characters up to
  U+00FF that a string holds here: the tab, the line feed, the vertical tab, the form
  feed, the carriage return, the space and the no-break space.
\<close>

definition isSpace :: "char \<Rightarrow> bool" where
  "isSpace c = (c = CHR 0x09 \<or> c = CHR 0x0A \<or> c = CHR 0x0B \<or> c = CHR 0x0C
                \<or> c = CHR 0x0D \<or> c = CHR 0x20 \<or> c = CHR 0xA0)"

definition trimStart :: "string \<Rightarrow> string" where
  "trimStart s = dropWhile isSpace s"

definition trim :: "string \<Rightarrow> string" where
  "trim s = rev (dropWhile isSpace (rev (dropWhile isSpace s)))"

definition hexVal :: "char \<Rightarrow> nat option" where
  "hexVal c =
     (case digitVal c of
        Some d \<Rightarrow> Some d
      | None \<Rightarrow>
          map_of (zip ''abcdef'' [10, 11, 12, 13, 14, 15]
                  @ zip ''ABCDEF'' [10, 11, 12, 13, 14, 15]) c)"

definition isDigit :: "char \<Rightarrow> bool" where
  "isDigit c = (case digitVal c of None \<Rightarrow> False | Some d \<Rightarrow> True)"

definition isDigitBelow :: "nat \<Rightarrow> char \<Rightarrow> bool" where
  "isDigitBelow radix c = (case hexVal c of None \<Rightarrow> False | Some d \<Rightarrow> d < radix)"

text \<open>
  The numeric literals of \<^verbatim>\<open>Number(s)\<close>. An exponent part is \<^verbatim>\<open>e\<close> or \<^verbatim>\<open>E\<close>, an optional
  sign and at least one digit; an unsigned decimal literal is \<^verbatim>\<open>Infinity\<close>, or digits
  with an optional fraction, or a fraction that starts with the point, each with an
  optional exponent part; a literal of another radix is \<^verbatim>\<open>0x\<close>, \<^verbatim>\<open>0o\<close> or \<^verbatim>\<open>0b\<close> (in
  either case) and at least one digit of that radix, without a sign.
\<close>

definition exponentPartOrEmpty :: "string \<Rightarrow> bool" where
  "exponentPartOrEmpty r =
     (case r of
        [] \<Rightarrow> True
      | e # r1 \<Rightarrow>
          (e = CHR ''e'' \<or> e = CHR ''E'')
          \<and> (let r2 = (case r1 of
                          [] \<Rightarrow> []
                        | c # r' \<Rightarrow> if c = CHR ''+'' \<or> c = CHR ''-'' then r' else r1)
               in r2 \<noteq> [] \<and> list_all isDigit r2))"

definition unsignedDecimalLiteral :: "string \<Rightarrow> bool" where
  "unsignedDecimalLiteral u =
     (if u = ''Infinity'' then True
      else
        (let d1 = takeWhile isDigit u;
             r = dropWhile isDigit u
         in case r of
              [] \<Rightarrow> d1 \<noteq> []
            | c # r1 \<Rightarrow>
                if c = CHR ''.''
                then (let d2 = takeWhile isDigit r1;
                          r2 = dropWhile isDigit r1
                      in (d1 \<noteq> [] \<or> d2 \<noteq> []) \<and> exponentPartOrEmpty r2)
                else d1 \<noteq> [] \<and> exponentPartOrEmpty r))"

definition nonDecimalLiteral :: "string \<Rightarrow> bool" where
  "nonDecimalLiteral t =
     (case t of
        z # x # r \<Rightarrow>
          z = CHR ''0'' \<and> r \<noteq> []
          \<and> (if x = CHR ''x'' \<or> x = CHR ''X'' then list_all (isDigitBelow 16) r
               else if x = CHR ''o'' \<or> x = CHR ''O'' then list_all (isDigitBelow 8) r
               else if x = CHR ''b'' \<or> x = CHR ''B'' then list_all (isDigitBelow 2) r
               else False)
      | _ \<Rightarrow> False)"

text \<open>
  \<^verbatim>\<open>Number(s)\<close> is \<open>NaN\<close> exactly when \<open>s\<close>, with the blanks at both ends removed, is
  neither empty nor a numeric literal.
\<close>

definition jsNumberIsNaN :: "string \<Rightarrow> bool" where
  "jsNumberIsNaN s =
     (let t = trim s;
          u = (case t of
                 [] \<Rightarrow> []
               | c # r \<Rightarrow> if c = CHR ''+'' \<or> c = CHR ''-'' then r else t)
      in if t = [] then False
         else if nonDecimalLiteral t then False
         else if unsignedDecimalLiteral u then False
         else True)"

text \<open>\<^verbatim>\<open>s.split(sep)\<close> for a one-character separator: never the empty list.\<close>

fun str_split :: "char \<Rightarrow> string \<Rightarrow> string list" where
  "str_split sep [] = [[]]"
| "str_split sep (c # cs) =
     (if c = sep then [] # str_split sep cs
      else (case str_split sep cs of
              [] \<Rightarrow> [[c]]
            | w # ws \<Rightarrow> (c # w) # ws))"

text \<open>\<^verbatim>\<open>String(n)\<close> for an integer below the exponent notation's range.\<close>

fun showNat :: "nat \<Rightarrow> string" where
  "showNat n = (if n < 10 then [digitChar n] else showNat (n div 10) @ [digitChar n])"

definition jsString :: "int \<Rightarrow> string" where
  "jsString i = (if i < 0 then CHR ''-'' # showNat (nat (- i)) else showNat (nat i))"

text \<open>\<^verbatim>\<open>s.padStart(n, c)\<close> with a one-character filler.\<close>

definition padStart :: "nat \<Rightarrow> char \<Rightarrow> string \<Rightarrow> string" where
  "padStart n c s = replicate (n - length s) c @ s"

text \<open>JavaScript's \<^verbatim>\<open>%\<close>: the remainder takes the sign of the dividend.\<close>

definition jsRem :: "int \<Rightarrow> int \<Rightarrow> int" where
  "jsRem a b = (if a < 0 then - ((- a) mod \<bar>b\<bar>) else a mod \<bar>b\<bar>)"

subsection \<open>Clock strings and worked minutes\<close>

text \<open>
  \<^verbatim>\<open>const [h, m] = timeStr.split(':').map(Number); return h * 60 + m;\<close>
  A missing second field is \<open>undefined\<close>, which makes the sum \<open>NaN\<close>.
\<close>

definition timeToMinutes :: "string \<Rightarrow> int option" where
  "timeToMinutes timeStr =
     (case map jsNumber (str_split CHR '':'' timeStr) of
        Some h # Some m # _ \<Rightarrow> Some (h * 60 + m)
      | _ \<Rightarrow> None)"

definition minutesToTime :: "int \<Rightarrow> string" where
  "minutesToTime mins =
     (let h = mins div 60;
          m = jsRem mins 60
      in padStart 2 CHR ''0'' (jsString h) @ '':'' @ padStart 2 CHR ''0'' (jsString m))"

text \<open>
  The clock strings whose minute offset is certainly \<open>NaN\<close>: a field is missing or is
  not a number. (The sum of two infinities of opposite sign is \<open>NaN\<close> as well; infinite
  fields lie outside the model.) Where \<open>timeToMinutes\<close> is \<open>None\<close> and this is false, a
  field is a literal outside the integers modelled here.
\<close>

definition timeIsNaN :: "string \<Rightarrow> bool" where
  "timeIsNaN timeStr =
     (case str_split CHR '':'' timeStr of
        h # m # _ \<Rightarrow> if jsNumberIsNaN h then True else jsNumberIsNaN m
      | _ \<Rightarrow> True)"

text \<open>
  The lateness deduction, the cap at the scheduled end and the floor at zero. When the
  scheduled start, the scheduled end or the punch-out is \<open>NaN\<close>, the difference is
  \<open>NaN\<close>, the test \<^verbatim>\<open>minutes < 0\<close> is false and the function returns \<open>NaN\<close>. When only
  the punch-in is \<open>NaN\<close>, the test \<^verbatim>\<open>ai > ss\<close> is false, the deduction stays 0 and the
  punch-in is not read again. The result \<open>None\<close> stands for \<open>NaN\<close>, or for an offset
  outside the model.
\<close>

definition computeWorkedMinutes :: "string \<Rightarrow> string \<Rightarrow> string \<Rightarrow> string \<Rightarrow> int option" where
  "computeWorkedMinutes scheduledStart scheduledEnd actualIn actualOut =
     (case (timeToMinutes scheduledStart, timeToMinutes scheduledEnd,
            timeToMinutes actualOut) of
        (Some ss, Some se, Some ao) \<Rightarrow>
          (case (case timeToMinutes actualIn of
                   Some ai \<Rightarrow> Some (if ai > ss then ai - ss else 0)
                 | None \<Rightarrow> if timeIsNaN actualIn then Some 0 else None) of
             None \<Rightarrow> None
           | Some deduction \<Rightarrow>
               (let effectiveEnd = min ao se;
                    minutes = effectiveEnd - ss - deduction
                in Some (if minutes < 0 then 0 else minutes)))
      | _ \<Rightarrow> None)"

declare showNat.simps [simp del]


subsection \<open>Calendar dates of the platform\<close>

text \<open>
  A \<^verbatim>\<open>Date\<close> object is held by the calendar fields that its local getters return: the
  year, the month index (0 for January), the day of the month and the minute of the day.
  The host's time zone is a fixed offset \<open>tz\<close>, in minutes east of UTC, without
  daylight-saving changes; \<^verbatim>\<open>toISOString\<close> prints the UTC fields, which are the local
  ones moved back by \<open>tz\<close> minutes.
\<close>

record civil =
  cYear :: int
  cMonth :: int
  cDay :: int
  cMinute :: int

definition isLeapYear :: "int \<Rightarrow> bool" where
  "isLeapYear y =
     (if y mod 400 = 0 then True else if y mod 100 = 0 then False else y mod 4 = 0)"

definition monthLength :: "int \<Rightarrow> int \<Rightarrow> int" where
  "monthLength y m =
     (if m = 1 then (if isLeapYear y then 29 else 28)
      else if m = 3 \<or> m = 5 \<or> m = 8 \<or> m = 10 then 30
      else 31)"

definition nextDay :: "civil \<Rightarrow> civil" where
  "nextDay d =
     (if cDay d < monthLength (cYear d) (cMonth d) then d\<lparr>cDay := cDay d + 1\<rparr>
      else if cMonth d < 11 then d\<lparr>cMonth := cMonth d + 1, cDay := 1\<rparr>
      else d\<lparr>cYear := cYear d + 1, cMonth := 0, cDay := 1\<rparr>)"

definition prevDay :: "civil \<Rightarrow> civil" where
  "prevDay d =
     (if 1 < cDay d then d\<lparr>cDay := cDay d - 1\<rparr>
      else if 0 < cMonth d
        then d\<lparr>cMonth := cMonth d - 1, cDay := monthLength (cYear d) (cMonth d - 1)\<rparr>
      else d\<lparr>cYear := cYear d - 1, cMonth := 11, cDay := 31\<rparr>)"

definition shiftDays :: "int \<Rightarrow> civil \<Rightarrow> civil" where
  "shiftDays k d = (if 0 \<le> k then (nextDay ^^ nat k) d else (prevDay ^^ nat (- k)) d)"

text \<open>
  \<^verbatim>\<open>new Date(y, m, d)\<close>: local midnight. A year from 0 to 99 means 1900 plus that year, a
  month index outside 0..11 carries into the year, and the day counts from the first of
  the month, so that day 0 is the last day of the month before.
\<close>

definition newDate :: "int \<Rightarrow> int \<Rightarrow> int \<Rightarrow> civil" where
  "newDate y m d =
     (let yr = (if 0 \<le> y \<and> y \<le> 99 then 1900 + y else y);
          ym = yr + m div 12;
          mn = m mod 12
      in shiftDays (d - 1) \<lparr>cYear = ym, cMonth = mn, cDay = 1, cMinute = 0\<rparr>)"

definition toUTC :: "int \<Rightarrow> civil \<Rightarrow> civil" where
  "toUTC tz d =
     (let t = cMinute d - tz
      in (shiftDays (t div 1440) d)\<lparr>cMinute := t mod 1440\<rparr>)"

definition pad2 :: "int \<Rightarrow> string" where
  "pad2 n = padStart 2 CHR ''0'' (jsString n)"

definition isoYear :: "int \<Rightarrow> string" where
  "isoYear y =
     (if 0 \<le> y \<and> y \<le> 9999 then padStart 4 CHR ''0'' (jsString y)
      else (if y < 0 then ''-'' else ''+'') @ padStart 6 CHR ''0'' (showNat (nat \<bar>y\<bar>)))"

text \<open>
  \<^verbatim>\<open>toISOString()\<close> up to the minutes, \<^verbatim>\<open>YYYY-MM-DDTHH:mm\<close>; the program reads only the
  first ten characters. A year outside 0..9999 is printed with a sign and six digits.
\<close>

definition toISOString :: "int \<Rightarrow> civil \<Rightarrow> string" where
  "toISOString tz d =
     (let u = toUTC tz d
      in isoYear (cYear u) @ ''-'' @ pad2 (cMonth u + 1) @ ''-'' @ pad2 (cDay u) @ ''T''
         @ pad2 (cMinute u div 60) @ '':'' @ pad2 (cMinute u mod 60))"

text \<open>\<^verbatim>\<open>toTimeString().slice(0, 5)\<close>: the local clock, \<^verbatim>\<open>HH:MM\<close>.\<close>

definition localClock :: "civil \<Rightarrow> string" where
  "localClock d = pad2 (cMinute d div 60) @ '':'' @ pad2 (cMinute d mod 60)"

subsection \<open>The stored documents\<close>

datatype role = Admin | Employee

record account =
  username :: string
  password :: string
  role :: role
  hourlyRate :: "rat option"
  shiftStart :: "string option"
  shiftEnd :: "string option"

text \<open>A log entry; \<open>minutesWorked\<close> is \<open>None\<close> for JSON's \<open>null\<close>, which is how a \<open>NaN\<close> is stored.\<close>

record logEntry =
  log_username :: string
  log_date :: string
  log_punchIn :: string
  log_punchOut :: string
  minutesWorked :: "int option"
  payPeriodStart :: string

record punch =
  date :: string
  punchIn :: string

text \<open>
  The four documents of \<^verbatim>\<open>localStorage\<close>, each as \<^verbatim>\<open>JSON.parse\<close> decodes it: \<open>None\<close> when
  the key is missing or its text does not parse. The pay settings document is held by
  its \<^verbatim>\<open>startDays\<close> array, the open-punch object by its own properties.
\<close>

record store =
  accounts :: "account list option"
  paySettings :: "int list option"
  logs :: "logEntry list option"
  currentPunch :: "(string \<times> punch) list option"

text \<open>
  \<^verbatim>\<open>Storage.get(key, defaultValue)\<close> over the raw texts. \<open>JSON_parse\<close> is the platform's
  decoder, \<open>None\<close> where it throws; the second component lists the warnings written to
  the console.
\<close>

definition Storage_get ::
  "(string \<Rightarrow> 'v option) \<Rightarrow> (string \<rightharpoonup> string) \<Rightarrow> string \<Rightarrow> 'v \<Rightarrow> 'v \<times> string list" where
  "Storage_get JSON_parse localStorage key defaultValue =
     (case localStorage key of
        None \<Rightarrow> (defaultValue, [])
      | Some raw \<Rightarrow>
          if raw = [] then (defaultValue, [])
          else (case JSON_parse raw of
                  Some v \<Rightarrow> (v, [])
                | None \<Rightarrow> (defaultValue, [''Error parsing '' @ key])))"

text \<open>The same read on a document of the store.\<close>

definition fetch :: "'a option \<Rightarrow> 'a \<Rightarrow> 'a" where
  "fetch doc defaultValue = (case doc of None \<Rightarrow> defaultValue | Some v \<Rightarrow> v)"

subsection \<open>The pay-period start\<close>

text \<open>The loop over the sorted start days: the last one not after \<open>day\<close> stays chosen.\<close>

fun chooseDay :: "int \<Rightarrow> int list \<Rightarrow> int option \<Rightarrow> int option" where
  "chooseDay day [] chosenDay = chosenDay"
| "chooseDay day (s # rest) chosenDay =
     chooseDay day rest (if day \<ge> s then Some s else chosenDay)"

text \<open>
  With no start day configured, \<^verbatim>\<open>startDays[startDays.length - 1]\<close> is \<open>undefined\<close>, the date
  built from it is invalid and \<^verbatim>\<open>toISOString\<close> throws: the result is \<open>None\<close>.
\<close>

definition getPayPeriodStart :: "int \<Rightarrow> store \<Rightarrow> civil \<Rightarrow> string option" where
  "getPayPeriodStart tz st dateObj =
     (let startDays = sort (fetch (paySettings st) [1, 15]);
          day = cDay dateObj;
          month = cMonth dateObj;
          year = cYear dateObj
      in case chooseDay day startDays None of
           None \<Rightarrow>
             (let prevMonth = jsRem (month - 1 + 12) 12;
                  prevYear = (if month = 0 then year - 1 else year)
              in if startDays = [] then None
                 else
                   (let lastDay = last startDays;
                        daysInPrevMonth = cDay (newDate prevYear (prevMonth + 1) 0);
                        startDate = newDate prevYear prevMonth (min lastDay daysInPrevMonth)
                    in Some (take 10 (toISOString tz startDate))))
         | Some chosenDay \<Rightarrow>
             (let daysInMonth = cDay (newDate year (month + 1) 0);
                  actualDay = min chosenDay daysInMonth;
                  startDate = newDate year month actualDay
              in Some (take 10 (toISOString tz startDate))))"


subsection \<open>Deleting an employee\<close>

text \<open>
  The click handler of a row's delete button. \<open>idx\<close> is the row's \<^verbatim>\<open>data-index\<close> and
  \<open>confirmed\<close> the answer to the confirmation dialog, which is asked only when
  \<^verbatim>\<open>accs[idx]\<close> exists.
\<close>

definition deleteEmployee :: "nat \<Rightarrow> bool \<Rightarrow> store \<Rightarrow> store" where
  "deleteEmployee idx confirmed st =
     (let accs = fetch (accounts st) []
      in if idx < length accs \<and> confirmed then
           (let user = accs ! idx;
                logs1 = filter (\<lambda>entry. log_username entry \<noteq> username user) (fetch (logs st) []);
                st1 = st\<lparr>logs := Some logs1\<rparr>;
                accs1 = take idx accs @ drop (Suc idx) accs
            in st1\<lparr>accounts := Some accs1\<rparr>)
         else st)"

subsection \<open>Punching out\<close>

datatype effect =
    Alert string
  | Uncaught string
  | PunchedOut string "int option"

text \<open>
  A member that \<^verbatim>\<open>currentPunch\<close> only inherits from \<^verbatim>\<open>Object.prototype\<close> has no
  \<^verbatim>\<open>date\<close>, so a lookup that finds no own property ends in the same branch as one that
  finds nothing. \<open>PunchedOut t m\<close> is the closing message, with the clock time and the
  minutes worked; \<open>Uncaught\<close> is an exception that leaves the handler.
\<close>

definition punchOut :: "int \<Rightarrow> civil \<Rightarrow> account \<Rightarrow> store \<Rightarrow> store \<times> effect" where
  "punchOut tz now currentUser st =
     (let timeOutStr = localClock now;
          today = take 10 (toISOString tz now);
          currentPunch0 = fetch (currentPunch st) []
      in case map_of currentPunch0 (username currentUser) of
           None \<Rightarrow> (st, Alert ''No punch in record found for today.'')
         | Some punchRecord \<Rightarrow>
             if date punchRecord \<noteq> today
             then (st, Alert ''No punch in record found for today.'')
             else
               (let timeInStr = punchIn punchRecord;
                    scheduledStart =
                      (case shiftStart currentUser of
                         None \<Rightarrow> ''09:00''
                       | Some t \<Rightarrow> if t = [] then ''09:00'' else t);
                    scheduledEnd =
                      (case shiftEnd currentUser of
                         None \<Rightarrow> ''17:00''
                       | Some t \<Rightarrow> if t = [] then ''17:00'' else t);
                    worked = computeWorkedMinutes scheduledStart scheduledEnd timeInStr timeOutStr
                in case getPayPeriodStart tz st now of
                     None \<Rightarrow> (st, Uncaught ''RangeError: Invalid time value'')
                   | Some period \<Rightarrow>
                       (let logs1 = fetch (logs st) [] @
                              [\<lparr>log_username = username currentUser, log_date = today,
                                log_punchIn = timeInStr, log_punchOut = timeOutStr,
                                minutesWorked = worked, payPeriodStart = period\<rparr>];
                            st1 = st\<lparr>logs := Some logs1\<rparr>;
                            currentPunch1 =
                              filter (\<lambda>(k, v). k \<noteq> username currentUser) currentPunch0
                        in (st1\<lparr>currentPunch := Some currentPunch1\<rparr>,
                            PunchedOut timeOutStr worked))))"

subsection \<open>Saving the pay-period settings\<close>

definition radixVal :: "nat \<Rightarrow> char \<Rightarrow> nat option" where
  "radixVal radix c = (if radix = 16 then hexVal c else digitVal c)"

fun readRadix :: "nat \<Rightarrow> int \<Rightarrow> string \<Rightarrow> int" where
  "readRadix radix acc [] = acc"
| "readRadix radix acc (c # cs) =
     (case radixVal radix c of
        None \<Rightarrow> acc
      | Some d \<Rightarrow> readRadix radix (int radix * acc + int d) cs)"

text \<open>
  \<^verbatim>\<open>parseInt(str)\<close> with no radix given: leading blanks are skipped, a sign is read, a
  prefix \<^verbatim>\<open>0x\<close> switches to base 16, and the longest run of digits is the value, whatever
  follows it; \<open>None\<close> is \<open>NaN\<close>, when there is no digit. The value is exact here where
  JavaScript rounds a long run to a double, which changes no comparison with 1 or 31.
\<close>

definition parseInt :: "string \<Rightarrow> int option" where
  "parseInt str =
     (let s = trimStart str;
          neg = (case s of [] \<Rightarrow> False | c # _ \<Rightarrow> c = CHR ''-'');
          s1 = (case s of [] \<Rightarrow> [] | c # r \<Rightarrow> if c = CHR ''-'' \<or> c = CHR ''+'' then r else s);
          hex = (case s1 of
                   a # b # _ \<Rightarrow> a = CHR ''0'' \<and> (b = CHR ''x'' \<or> b = CHR ''X'')
                 | _ \<Rightarrow> False);
          radix = (if hex then 16 else 10);
          s2 = (if hex then drop 2 s1 else s1)
      in case s2 of
           [] \<Rightarrow> None
         | c # _ \<Rightarrow>
             (case radixVal radix c of
                None \<Rightarrow> None
              | Some _ \<Rightarrow>
                  Some ((if neg then - 1 else 1) * readRadix radix 0 s2)))"

text \<open>The tokens of the input that parse to a day from 1 to 31, in input order.\<close>

definition validDays :: "string \<Rightarrow> int list" where
  "validDays inputValue =
     filter (\<lambda>n. n \<ge> 1 \<and> n \<le> 31)
       (List.map_filter (\<lambda>t. parseInt (trim t)) (str_split CHR '','' (trim inputValue)))"

definition savePayPeriod :: "string \<Rightarrow> store \<Rightarrow> store \<times> string" where
  "savePayPeriod inputValue st =
     (let parts = validDays inputValue
      in if length parts = 0
         then (st, ''Please enter valid day numbers separated by commas.'')
         else (st\<lparr>paySettings := Some (sort parts)\<rparr>, ''Pay period settings saved.''))"


subsection \<open>The summary\<close>

text \<open>
  \<^verbatim>\<open>summaryMap\<close> and each \<^verbatim>\<open>empMap\<close> are plain objects used as dictionaries. An object
  is held by its own properties in insertion order; reading a name it does not own falls
  through to \<^verbatim>\<open>Object.prototype\<close>, whose members are listed here.
\<close>

definition objectPrototypeNames :: "string list" where
  "objectPrototypeNames =
     [''constructor'', ''__defineGetter__'', ''__defineSetter__'', ''hasOwnProperty'',
      ''__lookupGetter__'', ''__lookupSetter__'', ''isPrototypeOf'',
      ''propertyIsEnumerable'', ''toString'', ''valueOf'', ''__proto__'',
      ''toLocaleString'']"

text \<open>
  What an \<^verbatim>\<open>empMap\<close> holds under a name: a number of minutes, or \<open>Text\<close>, the string that
  \<^verbatim>\<open>+=\<close> makes out of an inherited function and a number. Such a string is truthy and
  converts to \<open>NaN\<close>.
\<close>

datatype tally = Minutes int | Text

fun assign :: "'k \<Rightarrow> 'v \<Rightarrow> ('k \<times> 'v) list \<Rightarrow> ('k \<times> 'v) list" where
  "assign k v [] = [(k, v)]"
| "assign k v ((k', v') # rest) =
     (if k' = k then (k, v) # rest else (k', v') # assign k v rest)"

text \<open>
  \<^verbatim>\<open>if (!empMap[user]) empMap[user] = 0; empMap[user] += minutesWorked;\<close>
  A \<open>null\<close> adds 0 to a number. Under an inherited name the first test finds a function,
  so nothing is reset and the sum is a string; assigning to \<^verbatim>\<open>__proto__\<close> a string is
  ignored.
\<close>

definition addMinutes :: "(string \<times> tally) list \<Rightarrow> string \<Rightarrow> int option \<Rightarrow> (string \<times> tally) list" where
  "addMinutes empMap user worked =
     (let n = (case worked of None \<Rightarrow> 0 | Some m \<Rightarrow> m)
      in case map_of empMap user of
           Some (Minutes t) \<Rightarrow> assign user (Minutes (t + n)) empMap
         | Some Text \<Rightarrow> empMap
         | None \<Rightarrow>
             if user = ''__proto__'' then empMap
             else if user \<in> set objectPrototypeNames then assign user Text empMap
             else assign user (Minutes (0 + n)) empMap)"

text \<open>
  \<^verbatim>\<open>logs.forEach\<close> building \<^verbatim>\<open>summaryMap\<close>. A period that names a member of
  \<^verbatim>\<open>Object.prototype\<close> would make the loop write into that shared built-in object; this is
  outside the model, and the result is \<open>None\<close>.
\<close>

fun collect ::
  "logEntry list \<Rightarrow> (string \<times> (string \<times> tally) list) list
     \<Rightarrow> (string \<times> (string \<times> tally) list) list option" where
  "collect [] summaryMap = Some summaryMap"
| "collect (entry # rest) summaryMap =
     (if payPeriodStart entry \<in> set objectPrototypeNames then None
      else
        (let empMap = (case map_of summaryMap (payPeriodStart entry) of
                         None \<Rightarrow> []
                       | Some e \<Rightarrow> e)
         in collect rest
              (assign (payPeriodStart entry)
                 (addMinutes empMap (log_username entry) (minutesWorked entry)) summaryMap)))"

text \<open>
  \<^verbatim>\<open>Object.keys\<close>: the names that are array indices (canonical numerals below
  \<open>2^32 - 1\<close>) first, in ascending numeric order, then the others in insertion order.
\<close>

definition isArrayIndex :: "string \<Rightarrow> bool" where
  "isArrayIndex k =
     (case parseDigits 0 k of
        None \<Rightarrow> False
      | Some n \<Rightarrow> k \<noteq> [] \<and> showNat (nat n) = k \<and> n < 4294967295)"

definition indexOf :: "string \<Rightarrow> int" where
  "indexOf k = (case parseDigits 0 k of None \<Rightarrow> 0 | Some n \<Rightarrow> n)"

definition objectKeys :: "(string \<times> 'v) list \<Rightarrow> string list" where
  "objectKeys obj =
     sort_key indexOf (filter isArrayIndex (map fst obj))
       @ filter (\<lambda>k. \<not> isArrayIndex k) (map fst obj)"

record summaryRow =
  period :: string
  user :: string
  totalHours :: string
  totalPay :: string

text \<open>
  The two numbers of a row are computed in floating point and printed by \<^verbatim>\<open>toFixed(2)\<close>.
  That arithmetic is a parameter of the model: \<open>formatHours mins\<close> is the text of
  \<^verbatim>\<open>(mins / 60).toFixed(2)\<close> and \<open>payText mins rate\<close> the text of
  \<^verbatim>\<open>(mins / 60 * rate).toFixed(2)\<close>, for a number \<open>mins\<close>. When the total is a string both
  are the text of \<open>NaN\<close>. A rate that is missing or 0 is replaced by 0.
\<close>

definition summaryRowOf ::
  "(int \<Rightarrow> string) \<Rightarrow> (int \<Rightarrow> rat \<Rightarrow> string) \<Rightarrow> account list \<Rightarrow> string \<Rightarrow> string \<Rightarrow> tally
     \<Rightarrow> summaryRow" where
  "summaryRowOf formatHours payText accs p u totalMins =
     (let account = find (\<lambda>a. username a = u) accs;
          rate = (case account of
                    None \<Rightarrow> 0
                  | Some a \<Rightarrow> (case hourlyRate a of None \<Rightarrow> 0 | Some r \<Rightarrow> r))
      in case totalMins of
           Minutes t \<Rightarrow>
             \<lparr>period = p, user = u, totalHours = formatHours t, totalPay = payText t rate\<rparr>
         | Text \<Rightarrow>
             \<lparr>period = p, user = u, totalHours = ''NaN'', totalPay = ''NaN''\<rparr>)"

definition generateSummary ::
  "(int \<Rightarrow> string) \<Rightarrow> (int \<Rightarrow> rat \<Rightarrow> string) \<Rightarrow> store \<Rightarrow> summaryRow list option" where
  "generateSummary formatHours payText st =
     (let logs0 = fetch (logs st) [];
          accs = fetch (accounts st) []
      in case collect logs0 [] of
           None \<Rightarrow> None
         | Some summaryMap \<Rightarrow>
             Some (concat (map (\<lambda>p.
                     (let empMap = (case map_of summaryMap p of None \<Rightarrow> [] | Some e \<Rightarrow> e)
                      in concat (map (\<lambda>u.
                           (case map_of empMap u of
                              None \<Rightarrow> []
                            | Some totalMins \<Rightarrow>
                                [summaryRowOf formatHours payText accs p u totalMins]))
                           (objectKeys empMap))))
                   (sort (objectKeys summaryMap)))))"


subsection \<open>Predicates of the specification\<close>

text \<open>
  A valid clock string: two digits, a colon, two digits, with the hours at most 23 and the
  minutes at most 59.
\<close>

definition validClock :: "string \<Rightarrow> bool" where
  "validClock t =
     (case t of
        [a, b, c, d, e] \<Rightarrow>
          (case (digitVal a, digitVal b, digitVal d, digitVal e) of
             (Some x, Some y, Some u, Some v) \<Rightarrow>
               c = CHR '':'' \<and> 10 * x + y \<le> 23 \<and> 10 * u + v \<le> 59
           | _ \<Rightarrow> False)
      | _ \<Rightarrow> False)"

text \<open>
  The pay-period start as the specification words it: among the configured start days not
  after the date's day of the month the largest, in the date's month; with no such day,
  the largest configured start day in the month before. Either is clamped to the last day
  of its month. \<open>isoDate\<close> prints a year, a month index and a day as \<^verbatim>\<open>YYYY-MM-DD\<close>.
\<close>

definition periodStartSpec :: "int list \<Rightarrow> civil \<Rightarrow> int \<times> int \<times> int" where
  "periodStartSpec days d =
     (let qualifying = filter (\<lambda>s. s \<le> cDay d) days;
          py = (if cMonth d = 0 then cYear d - 1 else cYear d);
          pm = (if cMonth d = 0 then 11 else cMonth d - 1)
      in if qualifying \<noteq> []
         then (cYear d, cMonth d, min (Max (set qualifying)) (monthLength (cYear d) (cMonth d)))
         else (py, pm, min (Max (set days)) (monthLength py pm)))"

definition isoDate :: "int \<times> int \<times> int \<Rightarrow> string" where
  "isoDate ymd =
     (case ymd of (y, m, k) \<Rightarrow>
        padStart 4 CHR ''0'' (jsString y) @ ''-'' @ pad2 (m + 1) @ ''-'' @ pad2 k)"

text \<open>
  The totals as the specification words them: the minutes of a group are the sum of
  \<open>minutesWorked\<close> over the log entries of that period and user (a \<open>null\<close> counting
  as 0), and the rate of a user is the hourly rate of the first account of that name, 0
  when there is no such account or it has no rate.
\<close>

definition groupMinutes :: "logEntry list \<Rightarrow> string \<Rightarrow> string \<Rightarrow> int" where
  "groupMinutes entries p u =
     sum_list (map (\<lambda>entry. case minutesWorked entry of None \<Rightarrow> 0 | Some m \<Rightarrow> m)
       (filter (\<lambda>entry. payPeriodStart entry = p \<and> log_username entry = u) entries))"

definition rateOfUser :: "account list \<Rightarrow> string \<Rightarrow> rat" where
  "rateOfUser accs u =
     (case find (\<lambda>a. username a = u) accs of
        None \<Rightarrow> 0
      | Some a \<Rightarrow> (case hourlyRate a of None \<Rightarrow> 0 | Some r \<Rightarrow> r))"

text \<open>
  What the summary map should hold for a period and a user after the loop over the given
  entries: nothing without an entry of that group and nothing under \<^verbatim>\<open>__proto__\<close>, a
  string under any other inherited name, and the group's minutes otherwise.
\<close>

definition expectedTally :: "logEntry list \<Rightarrow> string \<Rightarrow> string \<Rightarrow> tally option" where
  "expectedTally entries p u =
     (if filter (\<lambda>entry. payPeriodStart entry = p \<and> log_username entry = u) entries = []
         \<or> u = ''__proto__'' then None
      else if u \<in> set objectPrototypeNames then Some Text
      else Some (Minutes (groupMinutes entries p u)))"

definition tallyOf :: "(string \<times> (string \<times> tally) list) list \<Rightarrow> string \<Rightarrow> string \<Rightarrow> tally option" where
  "tallyOf summaryMap p u =
     (case map_of summaryMap p of None \<Rightarrow> None | Some empMap \<Rightarrow> map_of empMap u)"

subsection \<open>Sample data\<close>

definition alice :: account where
  "alice = \<lparr>username = ''alice'', password = ''a'', role = Employee, hourlyRate = Some 20,
             shiftStart = Some ''09:00'', shiftEnd = Some ''17:00''\<rparr>"

definition adminAccount :: account where
  "adminAccount = \<lparr>username = ''admin'', password = ''admin'', role = Admin, hourlyRate = None,
             shiftStart = None, shiftEnd = None\<rparr>"

definition entryOf :: "string \<Rightarrow> string \<Rightarrow> int \<Rightarrow> logEntry" where
  "entryOf u p m = \<lparr>log_username = u, log_date = p, log_punchIn = ''09:00'',
             log_punchOut = ''17:00'', minutesWorked = Some m, payPeriodStart = p\<rparr>"

definition sampleStore :: store where
  "sampleStore = \<lparr>accounts = Some [adminAccount, alice], paySettings = Some [1, 15],
     logs = Some [entryOf ''alice'' ''2024-03-01'' 480, entryOf ''bob'' ''2024-03-01'' 470,
                  entryOf ''alice'' ''2024-03-15'' 60],
     currentPunch = Some [(''alice'', \<lparr>date = ''2024-03-09'', punchIn = ''09:02''\<rparr>)]\<rparr>"

definition noon :: civil where
  "noon = \<lparr>cYear = 2024, cMonth = 2, cDay = 10, cMinute = 720\<rparr>"

definition constructorAccount :: account where
  "constructorAccount = \<lparr>username = ''constructor'', password = ''c'', role = Employee,
     hourlyRate = Some 10, shiftStart = Some ''09:00'', shiftEnd = Some ''17:00''\<rparr>"

definition inheritedNameStore :: store where
  "inheritedNameStore = \<lparr>accounts = Some [adminAccount, alice, constructorAccount],
     paySettings = Some [1, 15],
     logs = Some [entryOf ''alice'' ''2024-03-01'' 480, entryOf ''constructor'' ''2024-03-01'' 480],
     currentPunch = Some []\<rparr>"

section \<open>Properties of the clock strings\<close>

lemma digitVal_digitChar: "digitVal c = Some x \<Longrightarrow> digitChar x = c \<and> x < 10"
  by (auto simp: digitVal_def digitChar_def split: if_splits)

lemma digitVal_not_colon: "digitVal c = Some x \<Longrightarrow> c \<noteq> CHR '':''"
  by (auto simp: digitVal_def split: if_splits)

lemma jsNumber_two:
  "digitVal a = Some x \<Longrightarrow> digitVal b = Some y \<Longrightarrow> jsNumber [a, b] = Some (int (10 * x + y))"
  by (simp add: jsNumber_def)

lemma jsString_int: "jsString (int n) = showNat n"
  by (simp add: jsString_def)

lemma showNat_two:
  assumes "digitVal a = Some x" "digitVal b = Some y"
  shows "padStart 2 CHR ''0'' (showNat (10 * x + y)) = [a, b]"
proof -
  from assms have a: "digitChar x = a" "x < 10" and b: "digitChar y = b" "y < 10"
    using digitVal_digitChar by blast+
  have dc: "digitChar (10 * x + y) = b"
    using b by (simp add: digitChar_def)
  show ?thesis
  proof (cases "x = 0")
    case True
    with a have "a = CHR ''0''" by (auto simp: digitChar_def)
    with True b show ?thesis
      by (simp add: showNat.simps [of y] padStart_def)
  next
    case False
    then have "\<not> 10 * x + y < 10" by simp
    moreover have "(10 * x + y) div 10 = x" using b by simp
    ultimately have "showNat (10 * x + y) = [a, b]"
      using a dc by (simp add: showNat.simps [of "10 * x + y"] showNat.simps [of x])
    then show ?thesis by (simp add: padStart_def)
  qed
qed

lemma divmod60:
  fixes h m :: int
  assumes "0 \<le> h" "0 \<le> m" "m < 60"
  shows "(h * 60 + m) div 60 = h" and "jsRem (h * 60 + m) 60 = m"
proof -
  show "(h * 60 + m) div 60 = h" using assms by simp
  have "0 \<le> h * 60 + m" using assms by simp
  then show "jsRem (h * 60 + m) 60 = m" using assms by (simp add: jsRem_def)
qed

lemma split_clock:
  assumes "digitVal a = Some x" "digitVal b = Some y" "digitVal d = Some u" "digitVal e = Some v"
  shows "str_split CHR '':'' [a, b, CHR '':'', d, e] = [[a, b], [d, e]]"
  using assms by (auto dest: digitVal_not_colon)

lemma validClockE:
  assumes "validClock t"
  obtains a b d e x y u v where "t = [a, b, CHR '':'', d, e]"
    "digitVal a = Some x" "digitVal b = Some y" "digitVal d = Some u" "digitVal e = Some v"
    "10 * x + y \<le> 23" "10 * u + v \<le> 59"
  using assms unfolding validClock_def
  by (auto split: list.splits option.splits)

lemma timeToMinutes_clock:
  assumes "digitVal a = Some x" "digitVal b = Some y" "digitVal d = Some u" "digitVal e = Some v"
  shows "timeToMinutes [a, b, CHR '':'', d, e] = Some (int (10 * x + y) * 60 + int (10 * u + v))"
  unfolding timeToMinutes_def split_clock [OF assms]
  using jsNumber_two [OF assms(1,2)] jsNumber_two [OF assms(3,4)] by simp

text \<open>
  C8. For every valid clock string \<open>t\<close> (two zero-padded digit fields, hours 00 to 23,
  minutes 00 to 59), \<open>minutesToTime (timeToMinutes t)\<close> is \<open>t\<close> again.
\<close>

theorem minutesToTime_timeToMinutes:
  assumes "validClock t"
  shows "map_option minutesToTime (timeToMinutes t) = Some t"
proof -
  from assms obtain a b d e x y u v where t: "t = [a, b, CHR '':'', d, e]"
    and dv: "digitVal a = Some x" "digitVal b = Some y" "digitVal d = Some u" "digitVal e = Some v"
    and rg: "10 * x + y \<le> 23" "10 * u + v \<le> 59"
    by (rule validClockE)
  let ?n = "int (10 * x + y) * 60 + int (10 * u + v)"
  have h: "?n div 60 = int (10 * x + y)"
    using rg by (intro divmod60) simp_all
  have m: "jsRem ?n 60 = int (10 * u + v)"
    using rg by (intro divmod60) simp_all
  have "minutesToTime ?n = [a, b] @ '':'' @ [d, e]"
    unfolding minutesToTime_def Let_def h m jsString_int
      showNat_two [OF dv(1,2)] showNat_two [OF dv(3,4)] ..
  with timeToMinutes_clock [OF dv] show ?thesis by (simp add: t)
qed

theorem minutesToTime_timeToMinutes_witness:
  "validClock ''23:59'' \<and> timeToMinutes ''23:59'' = Some 1439
   \<and> map_option minutesToTime (timeToMinutes ''23:59'') = Some ''23:59''"
proof -
  have v: "validClock ''23:59''"
    by (simp add: validClock_def digitVal_def)
  have "timeToMinutes ''23:59'' = Some 1439"
    by (simp add: timeToMinutes_def jsNumber_def digitVal_def)
  with v minutesToTime_timeToMinutes [OF v] show ?thesis by simp
qed

section \<open>Properties of the worked minutes\<close>

lemma computeWorkedMinutes_Some:
  assumes "timeToMinutes scheduledStart = Some ss" "timeToMinutes scheduledEnd = Some se"
    "timeToMinutes actualIn = Some ai" "timeToMinutes actualOut = Some ao"
  shows "computeWorkedMinutes scheduledStart scheduledEnd actualIn actualOut =
           Some (max 0 (min ao se - ss - max 0 (ai - ss)))"
  using assms by (simp add: computeWorkedMinutes_def Let_def max_def min_def)

lemma timeToMinutes_examples:
  "timeToMinutes ''09:00'' = Some 540" "timeToMinutes ''17:00'' = Some 1020"
  "timeToMinutes ''09:10'' = Some 550" "timeToMinutes ''17:30'' = Some 1050"
  "timeToMinutes ''22:00'' = Some 1320" "timeToMinutes ''06:00'' = Some 360"
  "timeToMinutes ''18:00'' = Some 1080" "timeToMinutes ''19:00'' = Some 1140"
  "timeToMinutes ''09:25'' = Some 565" "timeToMinutes ''16:40'' = Some 1000"
  by (simp_all add: timeToMinutes_def jsNumber_def digitVal_def)

text \<open>
  C2. For clock strings whose minute offsets are \<open>ss\<close>, \<open>se\<close>, \<open>ai\<close> and \<open>ao\<close>,
  \<open>computeWorkedMinutes\<close> is \<open>max 0 (min ao se - ss - max 0 (ai - ss))\<close>; with a shift from
  09:00 to 17:00, a punch in at 09:10 and a punch out at 17:30 it is 470.
\<close>

theorem computeWorkedMinutes_formula:
  "(timeToMinutes scheduledStart = Some ss \<longrightarrow> timeToMinutes scheduledEnd = Some se \<longrightarrow>
    timeToMinutes actualIn = Some ai \<longrightarrow> timeToMinutes actualOut = Some ao \<longrightarrow>
      computeWorkedMinutes scheduledStart scheduledEnd actualIn actualOut =
        Some (max 0 (min ao se - ss - max 0 (ai - ss))))
   \<and> computeWorkedMinutes ''09:00'' ''17:00'' ''09:10'' ''17:30'' = Some 470"
proof (intro conjI impI)
  show "computeWorkedMinutes ''09:00'' ''17:00'' ''09:10'' ''17:30'' = Some 470"
    by (simp add: computeWorkedMinutes_Some [OF timeToMinutes_examples(1,2,3,4)])
qed (rule computeWorkedMinutes_Some)

theorem computeWorkedMinutes_formula_witness:
  "timeToMinutes ''09:00'' = Some 540 \<and> timeToMinutes ''17:00'' = Some 1020
   \<and> timeToMinutes ''09:25'' = Some 565 \<and> timeToMinutes ''16:40'' = Some 1000
   \<and> computeWorkedMinutes ''09:00'' ''17:00'' ''09:25'' ''16:40'' = Some 435"
  using computeWorkedMinutes_formula
    [of "''09:00''" 540 "''17:00''" 1020 "''09:25''" 565 "''16:40''" 1000]
  by (simp add: timeToMinutes_examples)

text \<open>
  C6, as the specification states it, fails on the code. With a shift that ends before it
  starts (22:00 to 06:00), punching in and out on schedule gives 0, not \<open>se - ss\<close>, and 0
  exceeds \<open>se - ss\<close>. Arriving at 18:00 for a shift from 09:00 to 17:00 gives 0, while the
  on-time result 480 less the 540 late minutes would be negative.
\<close>

theorem computeWorkedMinutes_properties_counterexample:
  "timeToMinutes ''22:00'' = Some 1320 \<and> timeToMinutes ''06:00'' = Some 360
   \<and> computeWorkedMinutes ''22:00'' ''06:00'' ''22:00'' ''06:00'' = Some 0
   \<and> (0 :: int) \<noteq> 360 - 1320 \<and> \<not> (0 :: int) \<le> 360 - 1320
   \<and> timeToMinutes ''09:00'' = Some 540 \<and> timeToMinutes ''18:00'' = Some 1080
   \<and> computeWorkedMinutes ''09:00'' ''17:00'' ''18:00'' ''19:00'' = Some 0
   \<and> computeWorkedMinutes ''09:00'' ''17:00'' ''09:00'' ''19:00'' = Some 480
   \<and> (0 :: int) \<noteq> 480 - (1080 - 540)"
  by (simp add: timeToMinutes_examples
        computeWorkedMinutes_Some [OF timeToMinutes_examples(5,6,5,6)]
        computeWorkedMinutes_Some [OF timeToMinutes_examples(1,2,7,8)]
        computeWorkedMinutes_Some [OF timeToMinutes_examples(1,2,1,8)])

text \<open>
  C6, amended. For minute offsets \<open>ss\<close>, \<open>se\<close>, \<open>ai\<close>, \<open>ao\<close> the result is never negative
  and never exceeds \<open>max 0 (se - ss)\<close>, however large \<open>ao\<close> is; it is \<open>se - ss\<close> when
  \<open>ai = ss\<close>, \<open>ao = se\<close> and the shift does not end before it starts; and when \<open>ai > ss\<close>
  it is the on-time result less \<open>ai - ss\<close> as long as the arrival is not after
  \<open>min ao se\<close>, and 0 after that.
\<close>

theorem computeWorkedMinutes_properties:
  assumes "timeToMinutes scheduledStart = Some ss" "timeToMinutes scheduledEnd = Some se"
    "timeToMinutes actualIn = Some ai" "timeToMinutes actualOut = Some ao"
  shows "\<exists>w w0. computeWorkedMinutes scheduledStart scheduledEnd actualIn actualOut = Some w
           \<and> computeWorkedMinutes scheduledStart scheduledEnd scheduledStart actualOut = Some w0
           \<and> 0 \<le> w \<and> w \<le> max 0 (se - ss)
           \<and> (ai = ss \<and> ao = se \<and> ss \<le> se \<longrightarrow> w = se - ss)
           \<and> (ss < ai \<and> ai \<le> min ao se \<longrightarrow> w = w0 - (ai - ss))
           \<and> (ss < ai \<and> min ao se < ai \<longrightarrow> w = 0)"
  unfolding computeWorkedMinutes_Some [OF assms] computeWorkedMinutes_Some [OF assms(1,2,1,4)]
  by (auto simp: max_def min_def)

theorem computeWorkedMinutes_properties_witness:
  "timeToMinutes ''09:00'' = Some 540 \<and> timeToMinutes ''17:00'' = Some 1020
   \<and> timeToMinutes ''09:10'' = Some 550 \<and> timeToMinutes ''17:30'' = Some 1050
   \<and> computeWorkedMinutes ''09:00'' ''17:00'' ''09:10'' ''17:30'' = Some 470
   \<and> computeWorkedMinutes ''09:00'' ''17:00'' ''09:00'' ''17:30'' = Some 480
   \<and> (470 :: int) = 480 - (550 - 540)"
proof -
  from computeWorkedMinutes_properties [OF timeToMinutes_examples(1,2,3,4)]
  obtain w w0 where
    "computeWorkedMinutes ''09:00'' ''17:00'' ''09:10'' ''17:30'' = Some w"
    "computeWorkedMinutes ''09:00'' ''17:00'' ''09:00'' ''17:30'' = Some w0"
    "w = w0 - (550 - 540)" "w \<le> max 0 (1020 - 540)" "0 \<le> w"
    by auto
  moreover have "computeWorkedMinutes ''09:00'' ''17:00'' ''09:00'' ''17:30'' = Some 480"
    by (simp add: computeWorkedMinutes_Some [OF timeToMinutes_examples(1,2,1,4)])
  ultimately show ?thesis by (simp add: timeToMinutes_examples)
qed


text \<open>The offsets that are \<open>NaN\<close>.\<close>

lemma isDigit_facts:
  assumes "isDigit c"
  shows "\<not> isSpace c" "c \<noteq> CHR ''+''" "c \<noteq> CHR ''-''"
  using assms by (auto simp: isDigit_def isSpace_def digitVal_def split: if_splits)

lemma parseDigits_isDigit: "parseDigits acc s = Some n \<Longrightarrow> \<forall>c \<in> set s. isDigit c"
proof (induction s arbitrary: acc)
  case Nil
  then show ?case by simp
next
  case (Cons c s)
  from Cons.prems obtain d where d: "digitVal c = Some d"
    and r: "parseDigits (10 * acc + int d) s = Some n"
    by (auto split: option.splits)
  from d have "isDigit c" by (simp add: isDigit_def)
  with Cons.IH [OF r] show ?case by simp
qed

lemma trim_digits:
  assumes "\<forall>c \<in> set s. isDigit c"
  shows "trim s = s"
proof (cases "s = []")
  case True
  then show ?thesis by (simp add: trim_def)
next
  case False
  with assms have "\<not> isSpace (hd s)" "\<not> isSpace (last s)"
    by (simp_all add: isDigit_facts)
  with False have "dropWhile isSpace s = s" "dropWhile isSpace (rev s) = rev s"
    by (simp_all add: dropWhile_eq_self_iff hd_rev)
  then show ?thesis by (simp add: trim_def)
qed

lemma jsNumber_not_NaN:
  assumes "jsNumber s = Some n"
  shows "\<not> jsNumberIsNaN s"
proof (cases "s = []")
  case True
  then show ?thesis by (simp add: jsNumberIsNaN_def trim_def)
next
  case False
  with assms have d: "\<forall>c \<in> set s. isDigit c"
    by (auto simp: jsNumber_def split: if_splits dest: parseDigits_isDigit)
  from False obtain c r where s: "s = c # r" by (cases s) auto
  with d have "c \<noteq> CHR ''+''" "c \<noteq> CHR ''-''" by (simp_all add: isDigit_facts)
  moreover from d have tw: "takeWhile isDigit s = s" "dropWhile isDigit s = []"
    by simp_all
  have "unsignedDecimalLiteral s"
    unfolding unsignedDecimalLiteral_def Let_def tw using False by simp
  moreover have "trim (c # r) = c # r"
    using trim_digits [OF d] s by simp
  ultimately show ?thesis
    using s by (simp add: jsNumberIsNaN_def Let_def)
qed

text \<open>A clock string with a minute offset is not among those that are \<open>NaN\<close>.\<close>

lemma timeToMinutes_not_NaN:
  assumes "timeToMinutes timeStr = Some n"
  shows "\<not> timeIsNaN timeStr"
  using assms
  by (auto simp: timeToMinutes_def timeIsNaN_def jsNumber_not_NaN
      split: list.splits option.splits)

text \<open>
  When only the punch-in is \<open>NaN\<close>, the result is the capped time from the scheduled
  start, without a deduction.
\<close>

lemma computeWorkedMinutes_NaN_in:
  assumes "timeToMinutes scheduledStart = Some ss" "timeToMinutes scheduledEnd = Some se"
    "timeToMinutes actualOut = Some ao" "timeIsNaN actualIn"
  shows "computeWorkedMinutes scheduledStart scheduledEnd actualIn actualOut =
           Some (max 0 (min ao se - ss))"
proof -
  from assms(4) have "timeToMinutes actualIn = None"
    using timeToMinutes_not_NaN by (cases "timeToMinutes actualIn") auto
  with assms show ?thesis
    by (simp add: computeWorkedMinutes_def Let_def max_def min_def)
qed

lemma computeWorkedMinutes_NaN_in_example:
  "timeIsNaN ''abc'' \<and> computeWorkedMinutes ''09:00'' ''17:00'' ''abc'' ''17:30'' = Some 480"
proof -
  have n: "timeIsNaN ''abc''" by (simp add: timeIsNaN_def)
  from computeWorkedMinutes_NaN_in [OF timeToMinutes_examples(1,2,4) n] n
  show ?thesis by simp
qed

section \<open>Properties of the store and the handlers\<close>

text \<open>
  C9, as the specification states it, fails on the code: a stored empty string is not
  valid JSON, and the default is returned for it, but nothing is logged.
\<close>

theorem Storage_get_default_counterexample:
  "(\<lambda>raw. if raw = [] then None else parseDigits 0 raw) '''' = None
   \<and> Storage_get (\<lambda>raw. if raw = [] then None else parseDigits 0 raw)
         (Map.empty(''logs'' \<mapsto> '''')) ''logs'' 7 = (7, [])"
  by (simp add: Storage_get_def)

text \<open>
  C9, amended. \<open>Storage_get\<close> returns the default when the key is missing, when the stored
  text is empty and when the decoder rejects it; a rejected text that is not empty is
  logged as a warning, an empty one is not, and the call returns in every case. Otherwise
  it returns the decoded value, without a warning.
\<close>

theorem Storage_get_default:
  "(localStorage key = None \<longrightarrow>
      Storage_get JSON_parse localStorage key defaultValue = (defaultValue, []))
   \<and> (localStorage key = Some [] \<longrightarrow>
      Storage_get JSON_parse localStorage key defaultValue = (defaultValue, []))
   \<and> (localStorage key = Some raw \<and> JSON_parse raw = None \<longrightarrow>
      fst (Storage_get JSON_parse localStorage key defaultValue) = defaultValue)
   \<and> (localStorage key = Some raw \<and> JSON_parse raw = None \<and> raw \<noteq> [] \<longrightarrow>
      snd (Storage_get JSON_parse localStorage key defaultValue) \<noteq> [])
   \<and> (localStorage key = Some raw \<and> raw \<noteq> [] \<and> JSON_parse raw = Some v \<longrightarrow>
      Storage_get JSON_parse localStorage key defaultValue = (v, []))"
  by (simp add: Storage_get_def)

theorem Storage_get_default_witness:
  "Storage_get (\<lambda>raw. if raw = [] then None else parseDigits 0 raw)
     (Map.empty(''logs'' \<mapsto> ''42'', ''accounts'' \<mapsto> ''4x2'', ''paySettings'' \<mapsto> ''''))
     ''logs'' 7 = (42, [])
   \<and> Storage_get (\<lambda>raw. if raw = [] then None else parseDigits 0 raw)
     (Map.empty(''logs'' \<mapsto> ''42'', ''accounts'' \<mapsto> ''4x2'', ''paySettings'' \<mapsto> ''''))
     ''accounts'' 7 = (7, [''Error parsing accounts''])
   \<and> Storage_get (\<lambda>raw. if raw = [] then None else parseDigits 0 raw)
     (Map.empty(''logs'' \<mapsto> ''42'', ''accounts'' \<mapsto> ''4x2'', ''paySettings'' \<mapsto> ''''))
     ''paySettings'' 7 = (7, [])
   \<and> Storage_get (\<lambda>raw. if raw = [] then None else parseDigits 0 raw)
     (Map.empty(''logs'' \<mapsto> ''42'', ''accounts'' \<mapsto> ''4x2'', ''paySettings'' \<mapsto> ''''))
     ''currentPunch'' 7 = (7, [])"
proof -
  let ?p = "\<lambda>raw. if raw = [] then None else parseDigits 0 raw"
  let ?ls = "Map.empty(''logs'' \<mapsto> ''42'', ''accounts'' \<mapsto> ''4x2'', ''paySettings'' \<mapsto> '''')"
  have p: "?p ''42'' = Some 42" "?p ''4x2'' = None"
    by (simp_all add: digitVal_def)
  have "Storage_get ?p ?ls ''logs'' 7 = (42, [])"
    using Storage_get_default [of ?ls "''logs''" ?p 7 "''42''" 42] p by simp
  moreover have "fst (Storage_get ?p ?ls ''accounts'' 7) = 7"
    using Storage_get_default [of ?ls "''accounts''" ?p 7 "''4x2''" 0] p by simp
  moreover have "Storage_get ?p ?ls ''paySettings'' 7 = (7, [])"
    using Storage_get_default [of ?ls "''paySettings''" ?p 7 "''''" 0] by simp
  moreover have "Storage_get ?p ?ls ''currentPunch'' 7 = (7, [])"
    using Storage_get_default [of ?ls "''currentPunch''" ?p 7 "''''" 0] by simp
  moreover have "snd (Storage_get ?p ?ls ''accounts'' 7) = [''Error parsing accounts'']"
    using p by (simp add: Storage_get_def)
  ultimately show ?thesis by (simp add: prod_eq_iff)
qed

text \<open>
  The read on a document of the store is the first component of \<open>Storage_get\<close> on the raw
  text, with \<open>None\<close> for a text that is missing, empty or rejected.
\<close>

lemma fetch_Storage_get:
  "fst (Storage_get JSON_parse localStorage key defaultValue) =
     fetch (case localStorage key of
              None \<Rightarrow> None
            | Some raw \<Rightarrow> if raw = [] then None else JSON_parse raw) defaultValue"
  by (simp add: Storage_get_def fetch_def split: option.splits)

text \<open>
  C7. Deleting the account at a row removes exactly the log entries that carry its
  username: none of them is left, and the entries of every other username are the same
  entries in the same order.
\<close>

theorem deleteEmployee_logs:
  assumes "idx < length (fetch (accounts st) [])"
  shows "fetch (logs (deleteEmployee idx True st)) [] =
           filter (\<lambda>entry. log_username entry \<noteq> username (fetch (accounts st) [] ! idx))
             (fetch (logs st) [])
         \<and> filter (\<lambda>entry. log_username entry = username (fetch (accounts st) [] ! idx))
             (fetch (logs (deleteEmployee idx True st)) []) = []
         \<and> (\<forall>other. other \<noteq> username (fetch (accounts st) [] ! idx) \<longrightarrow>
               filter (\<lambda>entry. log_username entry = other)
                 (fetch (logs (deleteEmployee idx True st)) []) =
               filter (\<lambda>entry. log_username entry = other) (fetch (logs st) []))
         \<and> fetch (accounts (deleteEmployee idx True st)) [] =
             take idx (fetch (accounts st) []) @ drop (Suc idx) (fetch (accounts st) [])"
proof -
  let ?u = "username (fetch (accounts st) [] ! idx)"
  have l: "fetch (logs (deleteEmployee idx True st)) [] =
      filter (\<lambda>entry. log_username entry \<noteq> ?u) (fetch (logs st) [])"
    using assms by (simp add: deleteEmployee_def Let_def fetch_def)
  have a: "fetch (accounts (deleteEmployee idx True st)) [] =
      take idx (fetch (accounts st) []) @ drop (Suc idx) (fetch (accounts st) [])"
    using assms by (simp add: deleteEmployee_def Let_def fetch_def)
  show ?thesis
    unfolding l a by (auto simp: filter_empty_conv intro: filter_cong)
qed

theorem deleteEmployee_logs_witness:
  "(1 :: nat) < length (fetch (accounts sampleStore) [])
   \<and> username (fetch (accounts sampleStore) [] ! 1) = ''alice''
   \<and> fetch (logs (deleteEmployee 1 True sampleStore)) [] = [entryOf ''bob'' ''2024-03-01'' 470]
   \<and> fetch (accounts (deleteEmployee 1 True sampleStore)) [] = [adminAccount]"
proof -
  have h: "(1 :: nat) < length (fetch (accounts sampleStore) [])"
    by (simp add: sampleStore_def fetch_def)
  have u: "username (fetch (accounts sampleStore) [] ! 1) = ''alice''"
    by (simp add: sampleStore_def fetch_def alice_def)
  have "fetch (logs sampleStore) [] = [entryOf ''alice'' ''2024-03-01'' 480,
      entryOf ''bob'' ''2024-03-01'' 470, entryOf ''alice'' ''2024-03-15'' 60]"
    "fetch (accounts sampleStore) [] = [adminAccount, alice]"
    by (simp_all add: sampleStore_def fetch_def)
  with deleteEmployee_logs [OF h] h u show ?thesis
    by (simp add: entryOf_def)
qed

text \<open>
  C10. Deleting an account does not touch the open-punch map: the document is the same
  afterwards, so an open punch of the deleted user is still stored.
\<close>

theorem deleteEmployee_currentPunch:
  "currentPunch (deleteEmployee idx confirmed st) = currentPunch st
   \<and> map_of (fetch (currentPunch (deleteEmployee idx confirmed st)) []) name =
       map_of (fetch (currentPunch st) []) name"
  by (simp add: deleteEmployee_def Let_def)

theorem deleteEmployee_currentPunch_witness:
  "map_of (fetch (currentPunch (deleteEmployee 1 True sampleStore)) []) ''alice'' =
     Some \<lparr>date = ''2024-03-09'', punchIn = ''09:02''\<rparr>
   \<and> find (\<lambda>a. username a = ''alice'')
         (fetch (accounts (deleteEmployee 1 True sampleStore)) []) = None"
proof -
  have "map_of (fetch (currentPunch sampleStore) []) ''alice'' =
      Some \<lparr>date = ''2024-03-09'', punchIn = ''09:02''\<rparr>"
    by (simp add: sampleStore_def fetch_def)
  moreover have "fetch (accounts (deleteEmployee 1 True sampleStore)) [] = [adminAccount]"
    by (simp add: sampleStore_def fetch_def deleteEmployee_def Let_def)
  ultimately show ?thesis
    using deleteEmployee_currentPunch [of 1 True sampleStore "''alice''"]
    by (simp add: adminAccount_def)
qed


text \<open>
  C4. When the open-punch map holds no entry for the acting user, or one whose date is
  not today, punching out alerts that no punch-in was found and returns the store as it
  was: the logs, the open-punch map and the accounts are unchanged and no log entry is
  made.
\<close>

theorem punchOut_without_punch:
  assumes "map_of (fetch (currentPunch st) []) (username currentUser) = None
           \<or> (\<exists>r. map_of (fetch (currentPunch st) []) (username currentUser) = Some r
                  \<and> date r \<noteq> take 10 (toISOString tz now))"
  shows "punchOut tz now currentUser st = (st, Alert ''No punch in record found for today.'')"
  using assms by (auto simp: punchOut_def Let_def)

theorem punchOut_without_punch_witness:
  "map_of (fetch (currentPunch sampleStore) []) (username alice) =
     Some \<lparr>date = ''2024-03-09'', punchIn = ''09:02''\<rparr>
   \<and> take 10 (toISOString 0 noon) = ''2024-03-10''
   \<and> punchOut 0 noon alice sampleStore =
       (sampleStore, Alert ''No punch in record found for today.'')
   \<and> map_of (fetch (currentPunch sampleStore) []) (username adminAccount) = None
   \<and> punchOut 0 noon adminAccount sampleStore =
       (sampleStore, Alert ''No punch in record found for today.'')"
proof -
  have r: "map_of (fetch (currentPunch sampleStore) []) (username alice) =
      Some \<lparr>date = ''2024-03-09'', punchIn = ''09:02''\<rparr>"
    by (simp add: sampleStore_def fetch_def alice_def)
  have t: "take 10 (toISOString 0 noon) = ''2024-03-10''"
    by code_simp
  have n: "map_of (fetch (currentPunch sampleStore) []) (username adminAccount) = None"
    by (simp add: sampleStore_def fetch_def adminAccount_def)
  have "punchOut 0 noon alice sampleStore =
      (sampleStore, Alert ''No punch in record found for today.'')"
    by (rule punchOut_without_punch) (simp add: r t)
  moreover have "punchOut 0 noon adminAccount sampleStore =
      (sampleStore, Alert ''No punch in record found for today.'')"
    by (rule punchOut_without_punch) (simp add: n)
  ultimately show ?thesis using r t n by simp
qed

text \<open>
  C5, as the specification states it, fails on the code: an input with a non-numeric
  token and an out-of-range day is saved, with the offending tokens dropped.
\<close>

theorem savePayPeriod_counterexample:
  "savePayPeriod ''1,abc,45'' sampleStore =
     (sampleStore\<lparr>paySettings := Some [1]\<rparr>, ''Pay period settings saved.'')
   \<and> paySettings sampleStore = Some [1, 15]
   \<and> parseInt ''abc'' = None \<and> parseInt ''45'' = Some 45"
  by code_simp

lemma validDays_empty_iff:
  "validDays inputValue = [] \<longleftrightarrow>
     (\<forall>t \<in> set (str_split CHR '','' (trim inputValue)).
        case parseInt (trim t) of None \<Rightarrow> True | Some n \<Rightarrow> n < 1 \<or> 31 < n)"
  unfolding validDays_def List.map_filter_def filter_empty_conv
  by (auto split: option.splits)

lemma validDays_range: "n \<in> set (validDays inputValue) \<Longrightarrow> 1 \<le> n \<and> n \<le> 31"
  by (simp add: validDays_def)

text \<open>
  C5, amended. When no token of the input parses to a day from 1 to 31, saving the
  settings shows the validation message and returns the store as it was. When some token
  does, the input is accepted whatever its other tokens are: they are dropped, and the
  valid days are stored in ascending order. The stored list is then not empty and holds
  only days from 1 to 31.
\<close>

theorem savePayPeriod_validation:
  "((\<forall>t \<in> set (str_split CHR '','' (trim inputValue)).
        case parseInt (trim t) of None \<Rightarrow> True | Some n \<Rightarrow> n < 1 \<or> 31 < n) \<longrightarrow>
      savePayPeriod inputValue st =
        (st, ''Please enter valid day numbers separated by commas.''))
   \<and> ((\<exists>t \<in> set (str_split CHR '','' (trim inputValue)).
        case parseInt (trim t) of None \<Rightarrow> False | Some n \<Rightarrow> 1 \<le> n \<and> n \<le> 31) \<longrightarrow>
      savePayPeriod inputValue st =
        (st\<lparr>paySettings := Some (sort (validDays inputValue))\<rparr>, ''Pay period settings saved.'')
      \<and> validDays inputValue \<noteq> []
      \<and> (\<forall>n \<in> set (validDays inputValue). 1 \<le> n \<and> n \<le> 31))"
proof (intro conjI impI)
  assume "\<forall>t \<in> set (str_split CHR '','' (trim inputValue)).
        case parseInt (trim t) of None \<Rightarrow> True | Some n \<Rightarrow> n < 1 \<or> 31 < n"
  then have "validDays inputValue = []" by (simp add: validDays_empty_iff)
  then show "savePayPeriod inputValue st =
        (st, ''Please enter valid day numbers separated by commas.'')"
    by (simp add: savePayPeriod_def)
next
  assume "\<exists>t \<in> set (str_split CHR '','' (trim inputValue)).
        case parseInt (trim t) of None \<Rightarrow> False | Some n \<Rightarrow> 1 \<le> n \<and> n \<le> 31"
  then have ne: "validDays inputValue \<noteq> []"
    unfolding validDays_empty_iff by (auto split: option.splits)
  then show "validDays inputValue \<noteq> []" .
  from ne show "savePayPeriod inputValue st =
        (st\<lparr>paySettings := Some (sort (validDays inputValue))\<rparr>, ''Pay period settings saved.'')"
    by (simp add: savePayPeriod_def Let_def)
  show "\<forall>n \<in> set (validDays inputValue). 1 \<le> n \<and> n \<le> 31"
    using validDays_range by blast
qed

theorem savePayPeriod_validation_witness:
  "str_split CHR '','' (trim ''abc, 32,0'') = [''abc'', '' 32'', ''0'']
   \<and> parseInt ''abc'' = None \<and> parseInt ''32'' = Some 32 \<and> parseInt ''0'' = Some 0
   \<and> savePayPeriod ''abc, 32,0'' sampleStore =
       (sampleStore, ''Please enter valid day numbers separated by commas.'')
   \<and> validDays ''15, x ,1'' = [15, 1]
   \<and> savePayPeriod ''15, x ,1'' sampleStore =
       (sampleStore\<lparr>paySettings := Some [1, 15]\<rparr>, ''Pay period settings saved.'')"
proof -
  have s: "str_split CHR '','' (trim ''abc, 32,0'') = [''abc'', '' 32'', ''0'']"
    by code_simp
  have p: "parseInt ''abc'' = None" "parseInt ''32'' = Some 32" "parseInt ''0'' = Some 0"
    "trim ''abc'' = ''abc''" "trim '' 32'' = ''32''" "trim ''0'' = ''0''"
    by code_simp+
  have v: "validDays ''15, x ,1'' = [15, 1]"
    by code_simp
  have s2: "str_split CHR '','' (trim ''15, x ,1'') = [''15'', '' x '', ''1'']"
    "trim ''15'' = ''15''" "parseInt ''15'' = Some 15"
    by code_simp+
  have "savePayPeriod ''abc, 32,0'' sampleStore =
       (sampleStore, ''Please enter valid day numbers separated by commas.'')"
    using savePayPeriod_validation [of "''abc, 32,0''" sampleStore] s p by simp
  moreover have "savePayPeriod ''15, x ,1'' sampleStore =
       (sampleStore\<lparr>paySettings := Some [1, 15]\<rparr>, ''Pay period settings saved.'')"
    using savePayPeriod_validation [of "''15, x ,1''" sampleStore] s2 v by simp
  ultimately show ?thesis using s p v by simp
qed


text \<open>
  A no-break space before a day is trimmed like any other blank: the day is stored.
\<close>

lemma savePayPeriod_no_break_space:
  "parseInt (CHR 0xA0 # ''15'') = Some 15
   \<and> savePayPeriod (CHR 0xA0 # ''15'') sampleStore =
       (sampleStore\<lparr>paySettings := Some [15]\<rparr>, ''Pay period settings saved.'')"
  by code_simp

section \<open>Properties of the pay-period start\<close>

lemma chooseDay_filter:
  "chooseDay day xs acc =
     (case filter (\<lambda>s. s \<le> day) xs of [] \<Rightarrow> acc | q # qs \<Rightarrow> Some (last (q # qs)))"
  by (induction xs arbitrary: acc) (auto split: list.splits)

lemma last_sorted_Max:
  fixes xs :: "int list"
  shows "sorted xs \<Longrightarrow> xs \<noteq> [] \<Longrightarrow> last xs = Max (set xs)"
proof (induction xs)
  case Nil
  then show ?case by simp
next
  case (Cons x xs)
  show ?case
  proof (cases "xs = []")
    case True
    then show ?thesis by simp
  next
    case False
    with Cons have "last xs = Max (set xs)" by simp
    moreover have "x \<le> Max (set xs)"
    proof -
      from False obtain a where a: "a \<in> set xs" by (cases xs) auto
      with Cons.prems have "x \<le> a" by simp
      also from a have "a \<le> Max (set xs)" by simp
      finally show ?thesis .
    qed
    ultimately show ?thesis using False by (simp add: max_def)
  qed
qed

lemma chooseDay_sort:
  "chooseDay day (sort days) None =
     (if filter (\<lambda>s. s \<le> day) days = [] then None
      else Some (Max (set (filter (\<lambda>s. s \<le> day) days))))"
proof -
  let ?q = "filter (\<lambda>s. s \<le> day) (sort days)"
  have e: "?q = [] \<longleftrightarrow> filter (\<lambda>s. s \<le> day) days = []"
    by (simp add: filter_empty_conv)
  have s: "set ?q = set (filter (\<lambda>s. s \<le> day) days)" by simp
  show ?thesis
  proof (cases "?q = []")
    case True
    then show ?thesis using e by (simp add: chooseDay_filter)
  next
    case False
    then have "last ?q = Max (set ?q)"
      by (intro last_sorted_Max sorted_wrt_filter) simp_all
    with False show ?thesis
      using e unfolding chooseDay_filter s by (auto split: list.splits)
  qed
qed

lemma monthLength_bounds: "28 \<le> monthLength y m \<and> monthLength y m \<le> 31"
  by (simp add: monthLength_def)

lemma nextDay_funpow:
  assumes "1 + int n \<le> monthLength y m"
  shows "(nextDay ^^ n) \<lparr>cYear = y, cMonth = m, cDay = 1, cMinute = 0\<rparr> =
           \<lparr>cYear = y, cMonth = m, cDay = 1 + int n, cMinute = 0\<rparr>"
  using assms by (induction n) (simp_all add: nextDay_def)

lemma newDate_valid:
  assumes "y < 0 \<or> 99 < y" "0 \<le> m" "m \<le> 11" "1 \<le> k" "k \<le> monthLength y m"
  shows "newDate y m k = \<lparr>cYear = y, cMonth = m, cDay = k, cMinute = 0\<rparr>"
proof -
  have "1 + int (nat (k - 1)) \<le> monthLength y m" using assms by simp
  from nextDay_funpow [OF this] assms show ?thesis
    by (auto simp: newDate_def shiftDays_def Let_def)
qed

lemma newDate_day0:
  assumes "y < 0 \<or> 99 < y" "0 \<le> m" "m \<le> 11"
  shows "cDay (newDate y (m + 1) 0) = monthLength y m"
proof (cases "m = 11")
  case True
  then show ?thesis using assms
    by (auto simp: newDate_def shiftDays_def Let_def prevDay_def monthLength_def)
next
  case False
  with assms have "(m + 1) div 12 = 0" "(m + 1) mod 12 = m + 1" by simp_all
  then show ?thesis using assms
    by (auto simp: newDate_def shiftDays_def Let_def prevDay_def)
qed

lemma length_showNat: "0 < k \<Longrightarrow> n < 10 ^ k \<Longrightarrow> length (showNat n) \<le> k"
proof (induction n arbitrary: k rule: showNat.induct)
  case (1 n)
  show ?case
  proof (cases "n < 10")
    case True
    with 1 show ?thesis by (simp add: showNat.simps [of n])
  next
    case False
    with 1 have k: "1 < k" by (cases "k = 1") auto
    have "n div 10 < 10 ^ (k - 1)"
    proof -
      have "n < 10 * 10 ^ (k - 1)" using 1(3) k by (cases k) auto
      then show ?thesis by simp
    qed
    with 1(1) [OF False, of "k - 1"] k have "length (showNat (n div 10)) \<le> k - 1" by simp
    with False k show ?thesis by (simp add: showNat.simps [of n])
  qed
qed

lemma length_showNat_pos: "0 < length (showNat n)"
  by (subst showNat.simps) simp

lemma length_pad2: "0 \<le> n \<Longrightarrow> n \<le> 99 \<Longrightarrow> length (pad2 n) = 2"
  using length_showNat [of 2 "nat n"]
  by (simp add: pad2_def padStart_def jsString_def)

lemma length_pad4: "0 \<le> y \<Longrightarrow> y \<le> 9999 \<Longrightarrow> length (padStart 4 CHR ''0'' (jsString y)) = 4"
  using length_showNat [of 4 "nat y"]
  by (simp add: padStart_def jsString_def)

lemma toISOString_midnight:
  assumes "0 \<le> y" "y \<le> 9999" "0 \<le> m" "m \<le> 11" "1 \<le> k" "k \<le> 31" "- 1440 < tz" "tz \<le> 0"
  shows "take 10 (toISOString tz \<lparr>cYear = y, cMonth = m, cDay = k, cMinute = 0\<rparr>) =
           isoDate (y, m, k)"
proof -
  have d: "(0 - tz) div 1440 = 0" using assms by simp
  have u: "toUTC tz \<lparr>cYear = y, cMonth = m, cDay = k, cMinute = 0\<rparr> =
      \<lparr>cYear = y, cMonth = m, cDay = k, cMinute = (- tz) mod 1440\<rparr>"
    using d by (simp add: toUTC_def shiftDays_def Let_def)
  have l: "length (padStart 4 CHR ''0'' (jsString y)) = 4" "length (pad2 (m + 1)) = 2"
    "length (pad2 k) = 2"
    using assms by (simp_all add: length_pad2 length_pad4)
  show ?thesis
    unfolding toISOString_def u Let_def isoDate_def
    using assms l by (simp add: isoYear_def)
qed

lemma prevMonth_rem:
  assumes "0 \<le> m" "m \<le> 11"
  shows "jsRem (m - 1 + 12) 12 = (if m = 0 then 11 else m - 1)"
proof -
  have "(m - 1 + 12) mod 12 = (if m = 0 then 11 else m - 1)"
    using assms by presburger
  with assms show ?thesis by (simp add: jsRem_def)
qed

lemma prevMonth_rem_simps:
  "jsRem 11 12 = 11"
  "0 \<le> m \<Longrightarrow> m \<le> 11 \<Longrightarrow> m \<noteq> 0 \<Longrightarrow> jsRem (11 + m) 12 = m - 1"
  using prevMonth_rem [of m] by (simp_all add: jsRem_def add.commute)

lemma toISOString_midnight_east:
  assumes "1 \<le> y" "y \<le> 9999" "0 \<le> m" "m \<le> 11" "1 \<le> k" "k \<le> monthLength y m"
    "0 < tz" "tz \<le> 1440"
  shows "take 10 (toISOString tz \<lparr>cYear = y, cMonth = m, cDay = k, cMinute = 0\<rparr>) =
           (let p = prevDay \<lparr>cYear = y, cMonth = m, cDay = k, cMinute = 0\<rparr>
            in isoDate (cYear p, cMonth p, cDay p))"
proof -
  let ?p = "prevDay \<lparr>cYear = y, cMonth = m, cDay = k, cMinute = 0\<rparr>"
  have d: "(0 - tz) div 1440 = - 1" using assms by simp
  have u: "toUTC tz \<lparr>cYear = y, cMonth = m, cDay = k, cMinute = 0\<rparr> =
      ?p\<lparr>cMinute := (- tz) mod 1440\<rparr>"
    using d by (simp add: toUTC_def shiftDays_def Let_def)
  have b: "0 \<le> cYear ?p" "cYear ?p \<le> 9999" "0 \<le> cMonth ?p + 1" "cMonth ?p + 1 \<le> 99"
    "0 \<le> cDay ?p" "cDay ?p \<le> 99"
    using assms monthLength_bounds [of y m] monthLength_bounds [of y "m - 1"]
    by (auto simp: prevDay_def)
  have l: "length (padStart 4 CHR ''0'' (jsString (cYear ?p))) = 4"
    "length (pad2 (cMonth ?p + 1)) = 2" "length (pad2 (cDay ?p)) = 2"
    using b by (simp_all only: length_pad2 length_pad4)
  show ?thesis
    unfolding toISOString_def u Let_def isoDate_def
    using b(1,2) l by (simp add: isoYear_def)
qed

text \<open>
  For every calendar date from 1970 to 9999 and every non-empty list of start days from 1
  to 31, the code builds local midnight of the date that the specification describes,
  and prints it with \<open>toISOString\<close>.
\<close>

lemma getPayPeriodStart_midnight:
  assumes days: "paySettings st = Some days" "days \<noteq> []" "\<forall>s \<in> set days. 1 \<le> s \<and> s \<le> 31"
    and date: "0 \<le> cMonth d" "cMonth d \<le> 11" "1 \<le> cDay d"
      "cDay d \<le> monthLength (cYear d) (cMonth d)" "1970 \<le> cYear d" "cYear d \<le> 9999"
  shows "\<exists>y m k. periodStartSpec days d = (y, m, k)
           \<and> 1969 \<le> y \<and> y \<le> 9999 \<and> 0 \<le> m \<and> m \<le> 11 \<and> 1 \<le> k \<and> k \<le> monthLength y m
           \<and> getPayPeriodStart tz st d =
               Some (take 10 (toISOString tz \<lparr>cYear = y, cMonth = m, cDay = k, cMinute = 0\<rparr>))"
proof (cases "filter (\<lambda>s. s \<le> cDay d) days = []")
  case True
  let ?py = "if cMonth d = 0 then cYear d - 1 else cYear d"
  let ?pm = "if cMonth d = 0 then 11 else cMonth d - 1"
  let ?k = "min (Max (set days)) (monthLength ?py ?pm)"
  have mx: "Max (set days) \<in> set days" using days(2) by (intro Max_in) simp_all
  with days(3) have mr: "1 \<le> Max (set days)" "Max (set days) \<le> 31" by auto
  have py: "?py < 0 \<or> 99 < ?py" "1969 \<le> ?py" "?py \<le> 9999" using date by auto
  have pm: "0 \<le> ?pm" "?pm \<le> 11" using date by auto
  have k: "1 \<le> ?k" "?k \<le> monthLength ?py ?pm"
    using mr monthLength_bounds [of ?py ?pm] by (auto simp: min_def)
  have ne: "sort days \<noteq> []"
    using days(2) by (metis length_0_conv length_sort)
  have ls: "last (sort days) = Max (set days)"
    using ne by (subst last_sorted_Max) simp_all
  have nd: "newDate ?py ?pm ?k = \<lparr>cYear = ?py, cMonth = ?pm, cDay = ?k, cMinute = 0\<rparr>"
    by (rule newDate_valid [OF py(1) pm k(1,2)])
  have spec: "periodStartSpec days d = (?py, ?pm, ?k)"
    using True by (simp add: periodStartSpec_def Let_def)
  have "getPayPeriodStart tz st d = Some (take 10 (toISOString tz (newDate ?py ?pm ?k)))"
    using True days(1) ne date(1,2)
    using newDate_day0 [OF py(1) pm]
    by (simp add: getPayPeriodStart_def Let_def fetch_def chooseDay_sort prevMonth_rem_simps ls
          split: if_splits)
  with spec py pm k show ?thesis unfolding nd by blast
next
  case False
  let ?q = "filter (\<lambda>s. s \<le> cDay d) days"
  let ?y = "cYear d" and ?m = "cMonth d"
  let ?k = "min (Max (set ?q)) (monthLength ?y ?m)"
  have "Max (set ?q) \<in> set ?q"
    using False by (intro Max_in) (auto simp: filter_empty_conv)
  with days(3) have mr: "1 \<le> Max (set ?q)" "Max (set ?q) \<le> cDay d" by auto
  have y: "?y < 0 \<or> 99 < ?y" "1969 \<le> ?y" using date by auto
  have k: "1 \<le> ?k" "?k \<le> monthLength ?y ?m"
    using mr monthLength_bounds [of ?y ?m] by (auto simp: min_def)
  have nd: "newDate ?y ?m ?k = \<lparr>cYear = ?y, cMonth = ?m, cDay = ?k, cMinute = 0\<rparr>"
    by (rule newDate_valid [OF y(1) date(1,2) k(1,2)])
  have spec: "periodStartSpec days d = (?y, ?m, ?k)"
    using False by (simp add: periodStartSpec_def Let_def)
  have g: "getPayPeriodStart tz st d = Some (take 10 (toISOString tz (newDate ?y ?m ?k)))"
    using False days(1)
    by (simp add: getPayPeriodStart_def Let_def fetch_def chooseDay_sort
          newDate_day0 [OF y(1) date(1,2)])
  from spec y(2) date(6) date(1,2) k g [unfolded nd] show ?thesis by blast
qed

text \<open>
  On a host at UTC or west of it the printed date is that date: there the code returns
  what the specification says.
\<close>

lemma getPayPeriodStart_west_of_UTC:
  assumes "paySettings st = Some days" "days \<noteq> []" "\<forall>s \<in> set days. 1 \<le> s \<and> s \<le> 31"
    and "0 \<le> cMonth d" "cMonth d \<le> 11" "1 \<le> cDay d"
      "cDay d \<le> monthLength (cYear d) (cMonth d)" "1970 \<le> cYear d" "cYear d \<le> 9999"
    and tz: "- 1440 < tz" "tz \<le> 0"
  shows "getPayPeriodStart tz st d = Some (isoDate (periodStartSpec days d))"
proof -
  from getPayPeriodStart_midnight [OF assms(1-9), of tz]
  obtain y m k where p: "periodStartSpec days d = (y, m, k)"
    and b: "1969 \<le> y" "y \<le> 9999" "0 \<le> m" "m \<le> 11" "1 \<le> k" "k \<le> monthLength y m"
    and g: "getPayPeriodStart tz st d =
      Some (take 10 (toISOString tz \<lparr>cYear = y, cMonth = m, cDay = k, cMinute = 0\<rparr>))"
    by blast
  have "0 \<le> y" "k \<le> 31" using b monthLength_bounds [of y m] by auto
  from toISOString_midnight [OF this(1) b(2,3,4,5) this(2) tz] show ?thesis
    unfolding g p by simp
qed

text \<open>
  On a host east of UTC, by up to a day, the printed date is the day before it.
\<close>

lemma getPayPeriodStart_east_of_UTC_day_before:
  assumes "paySettings st = Some days" "days \<noteq> []" "\<forall>s \<in> set days. 1 \<le> s \<and> s \<le> 31"
    and "0 \<le> cMonth d" "cMonth d \<le> 11" "1 \<le> cDay d"
      "cDay d \<le> monthLength (cYear d) (cMonth d)" "1970 \<le> cYear d" "cYear d \<le> 9999"
    and tz: "0 < tz" "tz \<le> 1440"
  shows "getPayPeriodStart tz st d =
           (case periodStartSpec days d of (y, m, k) \<Rightarrow>
              (let p = prevDay \<lparr>cYear = y, cMonth = m, cDay = k, cMinute = 0\<rparr>
               in Some (isoDate (cYear p, cMonth p, cDay p))))"
proof -
  from getPayPeriodStart_midnight [OF assms(1-9), of tz]
  obtain y m k where p: "periodStartSpec days d = (y, m, k)"
    and b: "1969 \<le> y" "y \<le> 9999" "0 \<le> m" "m \<le> 11" "1 \<le> k" "k \<le> monthLength y m"
    and g: "getPayPeriodStart tz st d =
      Some (take 10 (toISOString tz \<lparr>cYear = y, cMonth = m, cDay = k, cMinute = 0\<rparr>))"
    by blast
  have "1 \<le> y" using b by simp
  from toISOString_midnight_east [OF this b(2,3,4,5,6) tz] show ?thesis
    unfolding g p by (simp add: Let_def)
qed

lemma sampleStore_paySettings: "paySettings sampleStore = Some [1, 15]"
  by (simp add: sampleStore_def)

lemma periodStartSpec_examples:
  "periodStartSpec [1, 15] \<lparr>cYear = 2024, cMonth = 2, cDay = 10, cMinute = 720\<rparr> = (2024, 2, 1)"
  "periodStartSpec [1, 15] \<lparr>cYear = 2024, cMonth = 2, cDay = 20, cMinute = 720\<rparr> = (2024, 2, 15)"
  "periodStartSpec [1, 15] \<lparr>cYear = 2024, cMonth = 2, cDay = 1, cMinute = 720\<rparr> = (2024, 2, 1)"
  by (simp_all add: periodStartSpec_def monthLength_def)

lemma isoDate_examples:
  "isoDate (2024, 2, 1) = ''2024-03-01''" "isoDate (2024, 2, 15) = ''2024-03-15''"
  "isoDate (2024, 1, 29) = ''2024-02-29''" "isoDate (2024, 2, 14) = ''2024-03-14''"
  by (simp_all add: isoDate_def pad2_def padStart_def jsString_def showNat.simps digitChar_def)

lemma prevDay_examples:
  "prevDay \<lparr>cYear = 2024, cMonth = 2, cDay = 1, cMinute = 0\<rparr> =
     \<lparr>cYear = 2024, cMonth = 1, cDay = 29, cMinute = 0\<rparr>"
  "prevDay \<lparr>cYear = 2024, cMonth = 2, cDay = 15, cMinute = 0\<rparr> =
     \<lparr>cYear = 2024, cMonth = 2, cDay = 14, cMinute = 0\<rparr>"
  by (simp_all add: prevDay_def monthLength_def isLeapYear_def)

text \<open>
  C1 fails on a host east of UTC. The start date is built at local midnight and printed
  by \<open>toISOString\<close>, which prints the UTC date: with the host one hour east of UTC and
  start days 1 and 15, the three dates of the specification's scenario map to the day
  before the period start that the specification gives.
\<close>

theorem getPayPeriodStart_east_of_UTC:
  "getPayPeriodStart 60 sampleStore \<lparr>cYear = 2024, cMonth = 2, cDay = 10, cMinute = 720\<rparr>
     = Some ''2024-02-29''
   \<and> getPayPeriodStart 60 sampleStore \<lparr>cYear = 2024, cMonth = 2, cDay = 20, cMinute = 720\<rparr>
     = Some ''2024-03-14''
   \<and> getPayPeriodStart 60 sampleStore \<lparr>cYear = 2024, cMonth = 2, cDay = 1, cMinute = 720\<rparr>
     = Some ''2024-02-29''
   \<and> isoDate (periodStartSpec [1, 15] \<lparr>cYear = 2024, cMonth = 2, cDay = 10, cMinute = 720\<rparr>)
     = ''2024-03-01''
   \<and> isoDate (periodStartSpec [1, 15] \<lparr>cYear = 2024, cMonth = 2, cDay = 20, cMinute = 720\<rparr>)
     = ''2024-03-15''
   \<and> isoDate (periodStartSpec [1, 15] \<lparr>cYear = 2024, cMonth = 2, cDay = 1, cMinute = 720\<rparr>)
     = ''2024-03-01''"
proof -
  have e: "getPayPeriodStart 60 sampleStore \<lparr>cYear = 2024, cMonth = 2, cDay = k, cMinute = 720\<rparr>
      = (case periodStartSpec [1, 15] \<lparr>cYear = 2024, cMonth = 2, cDay = k, cMinute = 720\<rparr> of
           (y, m, k) \<Rightarrow>
             (let p = prevDay \<lparr>cYear = y, cMonth = m, cDay = k, cMinute = 0\<rparr>
              in Some (isoDate (cYear p, cMonth p, cDay p))))" if "1 \<le> k" "k \<le> 31" for k
    using that
    by (intro getPayPeriodStart_east_of_UTC_day_before [OF sampleStore_paySettings])
       (simp_all add: monthLength_def)
  show ?thesis
    by (simp add: e periodStartSpec_examples prevDay_examples isoDate_examples)
qed

text \<open>At UTC the same three dates map to the period starts of the scenario.\<close>

lemma getPayPeriodStart_at_UTC:
  "getPayPeriodStart 0 sampleStore \<lparr>cYear = 2024, cMonth = 2, cDay = 10, cMinute = 720\<rparr>
     = Some ''2024-03-01''
   \<and> getPayPeriodStart 0 sampleStore \<lparr>cYear = 2024, cMonth = 2, cDay = 20, cMinute = 720\<rparr>
     = Some ''2024-03-15''
   \<and> getPayPeriodStart 0 sampleStore \<lparr>cYear = 2024, cMonth = 2, cDay = 1, cMinute = 720\<rparr>
     = Some ''2024-03-01''"
proof -
  have w: "getPayPeriodStart 0 sampleStore \<lparr>cYear = 2024, cMonth = 2, cDay = k, cMinute = 720\<rparr>
      = Some (isoDate (periodStartSpec [1, 15]
          \<lparr>cYear = 2024, cMonth = 2, cDay = k, cMinute = 720\<rparr>))" if "1 \<le> k" "k \<le> 31" for k
    using that
    by (intro getPayPeriodStart_west_of_UTC [OF sampleStore_paySettings])
       (simp_all add: monthLength_def)
  show ?thesis
    by (simp add: w periodStartSpec_examples isoDate_examples)
qed

section \<open>Properties of the summary\<close>

lemma map_of_assign: "map_of (assign k v xs) = (map_of xs)(k \<mapsto> v)"
  by (induction xs) auto

lemma set_objectKeys: "set (objectKeys obj) = fst ` set obj"
  by (auto simp: objectKeys_def)

lemma map_of_addMinutes_other:
  "u' \<noteq> u \<Longrightarrow> map_of (addMinutes empMap u worked) u' = map_of empMap u'"
  by (auto simp: addMinutes_def Let_def map_of_assign split: option.splits tally.splits)

lemma map_of_addMinutes_same:
  "map_of (addMinutes empMap u worked) u =
     (case map_of empMap u of
        Some (Minutes t) \<Rightarrow> Some (Minutes (t + (case worked of None \<Rightarrow> 0 | Some m \<Rightarrow> m)))
      | Some Text \<Rightarrow> Some Text
      | None \<Rightarrow>
          if u = ''__proto__'' then None
          else if u \<in> set objectPrototypeNames then Some Text
          else Some (Minutes (case worked of None \<Rightarrow> 0 | Some m \<Rightarrow> m)))"
  by (simp add: addMinutes_def Let_def map_of_assign split: option.splits tally.splits)

lemma tallyOf_step_other:
  assumes "(p', u') \<noteq> (p, u)"
  shows "tallyOf (assign p (addMinutes (case map_of sm p of None \<Rightarrow> [] | Some e \<Rightarrow> e) u worked) sm)
           p' u' = tallyOf sm p' u'"
  using assms
  by (auto simp: tallyOf_def map_of_assign map_of_addMinutes_other split: option.splits)

lemma tallyOf_step_same:
  "tallyOf (assign p (addMinutes (case map_of sm p of None \<Rightarrow> [] | Some e \<Rightarrow> e) u worked) sm) p u =
     (case tallyOf sm p u of
        Some (Minutes t) \<Rightarrow> Some (Minutes (t + (case worked of None \<Rightarrow> 0 | Some m \<Rightarrow> m)))
      | Some Text \<Rightarrow> Some Text
      | None \<Rightarrow>
          if u = ''__proto__'' then None
          else if u \<in> set objectPrototypeNames then Some Text
          else Some (Minutes (case worked of None \<Rightarrow> 0 | Some m \<Rightarrow> m)))"
  by (auto simp: tallyOf_def map_of_assign map_of_addMinutes_same split: option.splits)

lemma expectedTally_snoc_other:
  assumes "(p', u') \<noteq> (payPeriodStart entry, log_username entry)"
  shows "expectedTally (seen @ [entry]) p' u' = expectedTally seen p' u'"
  using assms by (auto simp: expectedTally_def groupMinutes_def)

lemma groupMinutes_empty:
  "filter (\<lambda>entry. payPeriodStart entry = p \<and> log_username entry = u) seen = []
     \<Longrightarrow> groupMinutes seen p u = 0"
  by (simp add: groupMinutes_def)

lemma expectedTally_snoc_same:
  "expectedTally (seen @ [entry]) (payPeriodStart entry) (log_username entry) =
     (case expectedTally seen (payPeriodStart entry) (log_username entry) of
        Some (Minutes t) \<Rightarrow>
          Some (Minutes (t + (case minutesWorked entry of None \<Rightarrow> 0 | Some m \<Rightarrow> m)))
      | Some Text \<Rightarrow> Some Text
      | None \<Rightarrow>
          if log_username entry = ''__proto__'' then None
          else if log_username entry \<in> set objectPrototypeNames then Some Text
          else Some (Minutes (case minutesWorked entry of None \<Rightarrow> 0 | Some m \<Rightarrow> m)))"
  by (auto simp: expectedTally_def groupMinutes_def)

text \<open>
  The loop keeps the summary map equal to the expected tallies of the entries read so
  far, as long as no period is a name of \<open>Object.prototype\<close>.
\<close>

lemma collect_expected:
  assumes "\<forall>entry \<in> set rest. payPeriodStart entry \<notin> set objectPrototypeNames"
    and "\<forall>p u. tallyOf sm p u = expectedTally seen p u"
  shows "\<exists>sm'. collect rest sm = Some sm'
           \<and> (\<forall>p u. tallyOf sm' p u = expectedTally (seen @ rest) p u)"
  using assms
proof (induction rest arbitrary: sm seen)
  case Nil
  then show ?case by simp
next
  case (Cons entry rest)
  let ?sm = "assign (payPeriodStart entry)
      (addMinutes (case map_of sm (payPeriodStart entry) of None \<Rightarrow> [] | Some e \<Rightarrow> e)
         (log_username entry) (minutesWorked entry)) sm"
  have step: "tallyOf ?sm p u = expectedTally (seen @ [entry]) p u" for p u
  proof (cases "(p, u) = (payPeriodStart entry, log_username entry)")
    case True
    then show ?thesis
      using Cons.prems(2) by (simp add: tallyOf_step_same expectedTally_snoc_same)
  next
    case False
    then show ?thesis
      using Cons.prems(2) by (simp add: tallyOf_step_other expectedTally_snoc_other)
  qed
  from Cons.prems(1) have "\<forall>e \<in> set rest. payPeriodStart e \<notin> set objectPrototypeNames"
    by simp
  from Cons.IH [OF this, of ?sm "seen @ [entry]"] step
  obtain sm' where "collect rest ?sm = Some sm'"
    "\<forall>p u. tallyOf sm' p u = expectedTally ((seen @ [entry]) @ rest) p u"
    by blast
  with Cons.prems(1) show ?case by (simp add: Let_def)
qed

lemma in_rows_of_object:
  "r \<in> set (concat (map (\<lambda>u. (case map_of em u of None \<Rightarrow> [] | Some t \<Rightarrow> [f u t]))
                 (objectKeys em)))
     \<longleftrightarrow> (\<exists>u t. map_of em u = Some t \<and> r = f u t)"
proof
  assume "r \<in> set (concat (map (\<lambda>u. (case map_of em u of None \<Rightarrow> [] | Some t \<Rightarrow> [f u t]))
                 (objectKeys em)))"
  then obtain u where "r \<in> set (case map_of em u of None \<Rightarrow> [] | Some t \<Rightarrow> [f u t])"
    by auto
  then show "\<exists>u t. map_of em u = Some t \<and> r = f u t"
    by (cases "map_of em u") auto
next
  assume "\<exists>u t. map_of em u = Some t \<and> r = f u t"
  then obtain u t where ut: "map_of em u = Some t" "r = f u t" by blast
  then have "(u, t) \<in> set em" by (simp add: map_of_SomeD)
  then have "u \<in> set (objectKeys em)" by (force simp: set_objectKeys)
  moreover have "r \<in> set (case map_of em u of None \<Rightarrow> [] | Some t \<Rightarrow> [f u t])"
    using ut by simp
  ultimately show "r \<in> set (concat (map (\<lambda>u. (case map_of em u of None \<Rightarrow> []
      | Some t \<Rightarrow> [f u t])) (objectKeys em)))"
    by auto
qed

lemma in_rows_of_period:
  assumes "map_of sm p = Some em"
  shows "r \<in> set (let empMap = (case map_of sm p of None \<Rightarrow> [] | Some e \<Rightarrow> e)
                   in concat (map (\<lambda>u. (case map_of empMap u of
                                          None \<Rightarrow> []
                                        | Some t \<Rightarrow> [f u t]))
                        (objectKeys empMap)))
           \<longleftrightarrow> (\<exists>u t. map_of em u = Some t \<and> r = f u t)"
  unfolding Let_def assms option.case by (rule in_rows_of_object)

lemma sorted_concat_periods:
  fixes ps :: "string list"
  assumes "sorted ps" "\<And>p r. r \<in> set (g p) \<Longrightarrow> period r = p"
  shows "sorted (map period (concat (map g ps)))"
  using assms(1)
proof (induction ps)
  case Nil
  then show ?case by simp
next
  case (Cons p ps)
  have "map period (g p) = replicate (length (g p)) p"
    using assms(2) by (auto simp: map_replicate_const [symmetric] intro!: map_cong)
  moreover have "\<forall>y \<in> set (map period (concat (map g ps))). p \<le> y"
    using Cons.prems assms(2) by auto
  ultimately show ?case using Cons by (auto simp: sorted_append)
qed

text \<open>
  Apart from inherited names, the claim of the specification holds: when no period is a
  name of \<open>Object.prototype\<close>, the rows are ordered by period, every row stands for a
  group of the log, every group whose user is not \<^verbatim>\<open>__proto__\<close> has a row, and a row
  whose user is not an inherited name carries the group's minutes and the user's rate.
\<close>

lemma generateSummary_rows:
  assumes "\<forall>entry \<in> set (fetch (logs st) []). payPeriodStart entry \<notin> set objectPrototypeNames"
  shows "\<exists>rows. generateSummary formatHours payText st = Some rows
           \<and> sorted (map period rows)
           \<and> (\<forall>r \<in> set rows. \<exists>entry \<in> set (fetch (logs st) []).
                 payPeriodStart entry = period r \<and> log_username entry = user r)
           \<and> (\<forall>entry \<in> set (fetch (logs st) []). log_username entry \<noteq> ''__proto__'' \<longrightarrow>
                 (\<exists>r \<in> set rows. period r = payPeriodStart entry \<and> user r = log_username entry))
           \<and> (\<forall>r \<in> set rows. user r \<notin> set objectPrototypeNames \<longrightarrow>
                 totalHours r = formatHours (groupMinutes (fetch (logs st) []) (period r) (user r))
                 \<and> totalPay r = payText (groupMinutes (fetch (logs st) []) (period r) (user r))
                                   (rateOfUser (fetch (accounts st) []) (user r)))"
proof -
  let ?logs = "fetch (logs st) []" and ?accs = "fetch (accounts st) []"
  have "\<forall>p u. tallyOf [] p u = expectedTally [] p u"
    by (simp add: tallyOf_def expectedTally_def)
  from collect_expected [OF assms this]
  obtain sm where c: "collect ?logs [] = Some sm"
    and t: "\<And>p u. tallyOf sm p u = expectedTally ?logs p u"
    by auto
  let ?rowsOf = "\<lambda>p. (let empMap = (case map_of sm p of None \<Rightarrow> [] | Some e \<Rightarrow> e)
      in concat (map (\<lambda>u. (case map_of empMap u of
                              None \<Rightarrow> []
                            | Some totalMins \<Rightarrow>
                                [summaryRowOf formatHours payText ?accs p u totalMins]))
           (objectKeys empMap)))"
  let ?rows = "concat (map ?rowsOf (sort (objectKeys sm)))"
  have g: "generateSummary formatHours payText st = Some ?rows"
    by (simp add: generateSummary_def c Let_def)
  have pu: "period (summaryRowOf formatHours payText ?accs p u x) = p"
    "user (summaryRowOf formatHours payText ?accs p u x) = u" for p u x
    by (simp_all add: summaryRowOf_def Let_def split: tally.splits)
  have mem: "r \<in> set ?rows \<longleftrightarrow>
      (\<exists>p u x. tallyOf sm p u = Some x \<and> r = summaryRowOf formatHours payText ?accs p u x)" for r
  proof
    assume "r \<in> set ?rows"
    then obtain p where p: "p \<in> fst ` set sm" "r \<in> set (?rowsOf p)"
      by (auto simp: set_objectKeys)
    from p(1) obtain em where em: "map_of sm p = Some em"
      by (metis domD dom_map_of_conv_image_fst)
    from p(2) obtain u x where "map_of em u = Some x"
      "r = summaryRowOf formatHours payText ?accs p u x"
      unfolding in_rows_of_period [OF em] by blast
    with em have "tallyOf sm p u = Some x" by (simp add: tallyOf_def)
    with \<open>r = summaryRowOf formatHours payText ?accs p u x\<close>
    show "\<exists>p u x. tallyOf sm p u = Some x
        \<and> r = summaryRowOf formatHours payText ?accs p u x"
      by blast
  next
    assume "\<exists>p u x. tallyOf sm p u = Some x \<and> r = summaryRowOf formatHours payText ?accs p u x"
    then obtain p u x em where em: "map_of sm p = Some em" "map_of em u = Some x"
      and r: "r = summaryRowOf formatHours payText ?accs p u x"
      by (auto simp: tallyOf_def split: option.splits)
    from em(1) have "p \<in> fst ` set sm" by (metis domI dom_map_of_conv_image_fst)
    moreover have "r \<in> set (?rowsOf p)"
      unfolding in_rows_of_period [OF em(1)] using em(2) r by blast
    ultimately show "r \<in> set ?rows" by (auto simp: set_objectKeys)
  qed
  have srt: "sorted (map period ?rows)"
  proof (rule sorted_concat_periods)
    show "sorted (sort (objectKeys sm))" by simp
    show "period r = p" if "r \<in> set (?rowsOf p)" for p r
    proof (cases "map_of sm p")
      case None
      with that show ?thesis by (simp add: objectKeys_def)
    next
      case (Some em)
      from that show ?thesis unfolding in_rows_of_period [OF Some] using pu by blast
    qed
  qed
  have a: "\<exists>entry \<in> set ?logs. payPeriodStart entry = period r \<and> log_username entry = user r"
    if "r \<in> set ?rows" for r
  proof -
    from that obtain p u x where x: "expectedTally ?logs p u = Some x"
      and r: "r = summaryRowOf formatHours payText ?accs p u x"
      unfolding mem t by blast
    from x have "filter (\<lambda>entry. payPeriodStart entry = p \<and> log_username entry = u) ?logs \<noteq> []"
      by (auto simp: expectedTally_def split: if_splits)
    then show ?thesis by (auto simp: r pu filter_empty_conv)
  qed
  have b: "\<exists>r \<in> set ?rows. period r = payPeriodStart entry \<and> user r = log_username entry"
    if "entry \<in> set ?logs" "log_username entry \<noteq> ''__proto__''" for entry
  proof -
    from that have "expectedTally ?logs (payPeriodStart entry) (log_username entry) \<noteq> None"
      by (auto simp: expectedTally_def filter_empty_conv)
    then obtain x where "tallyOf sm (payPeriodStart entry) (log_username entry) = Some x"
      unfolding t by blast
    then have "summaryRowOf formatHours payText ?accs (payPeriodStart entry)
        (log_username entry) x \<in> set ?rows"
      unfolding mem by blast
    then show ?thesis using pu by blast
  qed
  have v: "totalHours r = formatHours (groupMinutes ?logs (period r) (user r))
      \<and> totalPay r = payText (groupMinutes ?logs (period r) (user r)) (rateOfUser ?accs (user r))"
    if "r \<in> set ?rows" "user r \<notin> set objectPrototypeNames" for r
  proof -
    from that(1) obtain p u x where x: "expectedTally ?logs p u = Some x"
      and r: "r = summaryRowOf formatHours payText ?accs p u x"
      unfolding mem t by blast
    from that(2) r pu have "u \<notin> set objectPrototypeNames" by simp
    with x have "x = Minutes (groupMinutes ?logs p u)"
      by (auto simp: expectedTally_def split: if_splits)
    then show ?thesis
      by (simp add: r summaryRowOf_def Let_def rateOfUser_def)
  qed
  show ?thesis
    unfolding g using srt a b v by blast
qed

text \<open>
  C3 fails for a user whose name is a member of \<open>Object.prototype\<close>. For the employee
  \<^verbatim>\<open>constructor\<close> with one entry of 480 minutes and a rate of 10, the row has the text
  \<open>NaN\<close> for the hours and the pay, whatever the arithmetic of the platform is; the row
  of \<^verbatim>\<open>alice\<close>, with the same minutes, has the formatted hours and pay.
\<close>

theorem generateSummary_inherited_name:
  "generateSummary formatHours payText inheritedNameStore =
     Some [\<lparr>period = ''2024-03-01'', user = ''alice'', totalHours = formatHours 480,
              totalPay = payText 480 20\<rparr>,
           \<lparr>period = ''2024-03-01'', user = ''constructor'', totalHours = ''NaN'',
              totalPay = ''NaN''\<rparr>]
   \<and> groupMinutes (fetch (logs inheritedNameStore) []) ''2024-03-01'' ''constructor'' = 480
   \<and> rateOfUser (fetch (accounts inheritedNameStore) []) ''constructor'' = 10"
  by code_simp

end
